theory Spec2Isabelle
  imports Main "HOL-Library.Sublist"
begin

section \<open>Python values\<close>

text \<open>
  The installer script is parsed YAML/JSON, so every value the installer reads from it is
  dynamically typed. \<open>pyval\<close> is the universe of such values. A dictionary is an
  association list in insertion order (Python dictionaries iterate in insertion order);
  a well-formed dictionary has distinct keys. Floating point numbers are left out: no
  function below computes with them.
\<close>

datatype pyval =
    PNone
  | PBool bool
  | PInt int
  | PStr string
  | PList "pyval list"
  | PDict "(pyval \<times> pyval) list"

text \<open>
  The exceptions the installer raises itself (\<open>ScriptingError\<close>,
  \<open>AuthenticationError\<close>, \<open>ValueError\<close>) and the ones the Python runtime raises on
  an ill-typed operation. \<open>DiscoveryError\<close> stands for a failure reported by one of the
  external executable finders.
\<close>

datatype py_error =
    KeyError
  | IndexError
  | TypeError
  | AttributeError
  | ValueError
  | ScriptingError string pyval
  | AuthenticationError string
  | DiscoveryError

text \<open>Python truthiness: what \<open>if x:\<close>, \<open>not x\<close>, \<open>x and y\<close>, \<open>x or y\<close> test.\<close>

fun truthy :: "pyval \<Rightarrow> bool" where
  "truthy PNone = False"
| "truthy (PBool b) = b"
| "truthy (PInt i) = (i \<noteq> 0)"
| "truthy (PStr s) = (s \<noteq> [])"
| "truthy (PList xs) = (xs \<noteq> [])"
| "truthy (PDict d) = (d \<noteq> [])"

text \<open>\<open>x or y\<close> on values.\<close>

definition py_or :: "pyval \<Rightarrow> pyval \<Rightarrow> pyval" where
  "py_or x y = (if truthy x then x else y)"

text \<open>\<open>isinstance(v, dict)\<close>, \<open>isinstance(v, str)\<close>.\<close>

fun is_dict :: "pyval \<Rightarrow> bool" where
  "is_dict (PDict d) = True"
| "is_dict v = False"

fun is_str :: "pyval \<Rightarrow> bool" where
  "is_str (PStr s) = True"
| "is_str v = False"

text \<open>Lists and dictionaries are unhashable: using one as a dictionary key raises.\<close>

fun py_hashable :: "pyval \<Rightarrow> bool" where
  "py_hashable (PList xs) = False"
| "py_hashable (PDict d) = False"
| "py_hashable v = True"

text \<open>
  \<open>d.get(k, default)\<close> on a dictionary. Keys are compared structurally; a string
  equals no value of another type, so for a string key this is Python's \<open>==\<close>.
\<close>

definition dict_get :: "(pyval \<times> pyval) list \<Rightarrow> pyval \<Rightarrow> pyval \<Rightarrow> pyval" where
  "dict_get d k dflt = (case map_of d k of Some v \<Rightarrow> v | None \<Rightarrow> dflt)"

text \<open>\<open>obj.get(k, default)\<close> on any value: only a dictionary has the method.\<close>

fun py_get :: "pyval \<Rightarrow> pyval \<Rightarrow> pyval \<Rightarrow> py_error + pyval" where
  "py_get (PDict d) k dflt = Inr (dict_get d k dflt)"
| "py_get v k dflt = Inl AttributeError"

text \<open>
  \<open>x in c\<close>: key membership in a dictionary, element membership in a list, substring
  test on a string (the left operand must then be a string); anything else is not
  iterable. Values are compared structurally. Python also takes \<open>True\<close> and \<open>1\<close>
  (and \<open>False\<close> and \<open>0\<close>) for the same key or element, which the comparison here
  does not: the model is Python's wherever the value looked for, or every key or element
  it is compared with, is a string, as file ids and section names are.
\<close>

fun py_in :: "pyval \<Rightarrow> pyval \<Rightarrow> py_error + bool" where
  "py_in x (PDict d) = (if py_hashable x then Inr (x \<in> set (map fst d)) else Inl TypeError)"
| "py_in x (PList xs) = Inr (x \<in> set xs)"
| "py_in (PStr s) (PStr t) = Inr (sublist s t)"
| "py_in x (PStr t) = Inl TypeError"
| "py_in x PNone = Inl TypeError"
| "py_in x (PBool b) = Inl TypeError"
| "py_in x (PInt i) = Inl TypeError"

text \<open>
  \<open>c[k]\<close>: a dictionary raises \<open>KeyError\<close> on a missing key, a list or a string takes
  an integer index (negative ones count from the end) and raises \<open>TypeError\<close> on
  anything else; the other values are not subscriptable.
\<close>

definition seq_index :: "'a list \<Rightarrow> int \<Rightarrow> 'a option" where
  "seq_index xs i =
     (if 0 \<le> i \<and> i < int (length xs) then Some (xs ! nat i)
      else if i < 0 \<and> - int (length xs) \<le> i then Some (xs ! nat (int (length xs) + i))
      else None)"

fun py_getitem :: "pyval \<Rightarrow> pyval \<Rightarrow> py_error + pyval" where
  "py_getitem (PDict d) k =
     (if py_hashable k then (case map_of d k of Some v \<Rightarrow> Inr v | None \<Rightarrow> Inl KeyError)
      else Inl TypeError)"
| "py_getitem (PList xs) (PInt i) =
     (case seq_index xs i of Some v \<Rightarrow> Inr v | None \<Rightarrow> Inl IndexError)"
| "py_getitem (PStr s) (PInt i) =
     (case seq_index s i of Some c \<Rightarrow> Inr (PStr [c]) | None \<Rightarrow> Inl IndexError)"
| "py_getitem v k = Inl TypeError"

text \<open>\<open>str.lower()\<close> on the ASCII letters.\<close>

definition lower_char :: "char \<Rightarrow> char" where
  "lower_char c =
     (case map_of (zip ''ABCDEFGHIJKLMNOPQRSTUVWXYZ'' ''abcdefghijklmnopqrstuvwxyz'') c of
        Some l \<Rightarrow> l
      | None \<Rightarrow> c)"

definition lower :: "string \<Rightarrow> string" where
  "lower s = map lower_char s"

section \<open>The objects the installer works with\<close>

text \<open>
  Modelled from the spec: the class \<open>InstallerFile\<close> (lutris/installer/installer_file.py)
  is not part of the sources at hand. The spec describes it as one file to acquire, with a
  stable id, a declared URL (a concrete URL or the manual-entry sentinel) and a destination
  filename; the constructor also receives the game slug. \<open>InstallerFile\<close> objects are
  mutable (\<open>set_url\<close>) and shared by reference, so they live in a heap, see below.
\<close>

record installer_file =
  file_game_slug :: pyval
  file_id :: string
  url :: string
  filename :: string

text \<open>
  An acquisition provider (a service of \<open>lutris.services\<close>), an external collaborator:
  its attributes, and what its methods return in the run under consideration.
  \<open>is_connected\<close> is the result of the call \<open>is_connected()\<close>. A file-list request
  returns \<open>None\<close> (Python's \<open>None\<close>: the provider could not resolve the files) or a
  list of files; both \<open>None\<close> and the empty list are falsy. The provider's contract
  (spec, External interfaces) is that it returns a list or nothing; a provider that raises
  is outside this contract and outside the model.
\<close>

record service_t =
  svc_id :: string
  online :: bool
  has_extras :: bool
  is_connected :: bool
  selected_extras :: pyval
  get_patch_files :: "string \<Rightarrow> installer_file list option"
  get_installer_files :: "string \<Rightarrow> pyval \<Rightarrow> installer_file list option"

text \<open>
  The script interpreter, an external collaborator: the variable substitution
  \<open>_substitute\<close> (at the type of configuration values, and at the type of URLs: the
  spec's contract is text to text), the installed files, the install target and the
  selected extras.
\<close>

record interpreter_t =
  substitute :: "pyval \<Rightarrow> pyval"
  substitute_url :: "string \<Rightarrow> string"
  game_files :: "(pyval \<times> pyval) list"
  target_path :: pyval
  extras :: pyval

text \<open>A row of the games table, as \<open>get_game_by_field\<close> returns it.\<close>

record game_row =
  row_id :: int
  installed :: pyval
  configpath :: pyval

text \<open>The keyword arguments of one \<open>add_or_update\<close> call.\<close>

record game_upsert =
  up_name :: pyval
  up_runner :: pyval
  up_slug :: pyval
  up_platform :: pyval
  up_directory :: pyval
  up_installed :: int
  up_hidden :: int
  up_installer_slug :: pyval
  up_parent_slug :: pyval
  up_year :: pyval
  up_configpath :: pyval
  up_service :: "string option"
  up_service_id :: pyval
  up_id :: "int option"
  up_discord_id :: pyval

text \<open>
  The module-level collaborators, taken as parameters: the service registry
  \<open>SERVICES\<close> (the service each registered name constructs), the store lookup
  \<open>get_game_by_field value field\<close> (\<open>None\<close> when no row matches: the source tests the
  result for truthiness, and a row is a non-empty dictionary), the configuration store,
  the runner registry, the executable finders, the GOG adapters, the ModDB helper, the
  launcher lookup of \<open>lutris.installer.legacy\<close> and the two sentinel constants of
  \<open>lutris.installer\<close>.
\<close>

record env_t =
  SERVICES :: "string \<Rightarrow> service_t option"
  get_game_by_field :: "pyval \<Rightarrow> string \<Rightarrow> game_row option"
  game_level :: "pyval \<Rightarrow> pyval \<Rightarrow> pyval"
  write_game_config :: "pyval \<Rightarrow> pyval \<Rightarrow> pyval"
  add_or_update :: "game_upsert \<Rightarrow> int"
  get_platform :: "pyval \<Rightarrow> pyval"
  find_linux_game_executable :: "pyval \<Rightarrow> py_error + pyval"
  find_windows_game_executable :: "pyval \<Rightarrow> py_error + pyval"
  get_gog_config_from_path :: "pyval \<Rightarrow> pyval"
  get_gog_game_path :: "pyval \<Rightarrow> pyval"
  convert_gog_config_to_lutris :: "pyval \<Rightarrow> pyval \<Rightarrow> pyval"
  is_moddb_url :: "string \<Rightarrow> bool"
  get_moddb_download_url :: "string \<Rightarrow> string"
  get_game_launcher :: "pyval \<Rightarrow> pyval \<times> pyval"
  path_exists :: "string \<Rightarrow> bool"
  AUTO_ELF_EXE :: string
  AUTO_WIN32_EXE :: string

text \<open>
  The attributes of a \<open>LutrisInstaller\<close>. \<open>script_files\<close> and \<open>files\<close> are lists of
  references (heap addresses) to \<open>InstallerFile\<close> objects.
\<close>

record lutris_installer =
  interpreter :: interpreter_t
  installer :: "(pyval \<times> pyval) list"
  is_update :: bool
  version :: pyval
  slug :: pyval
  year :: pyval
  runner :: pyval
  script :: pyval
  game_name :: pyval
  game_slug :: pyval
  service :: "service_t option"
  service_appid :: pyval
  variables :: pyval
  script_files :: "nat list"
  files :: "nat list"
  requires :: pyval
  extends :: pyval
  game_id :: "int option"
  is_gog :: bool
  discord_id :: pyval

text \<open>
  What lies outside the installer object and changes as it runs: the heap of
  \<open>InstallerFile\<close> objects (an address is an index), the calls made to the provider and
  to the ModDB helper, the log, the configuration files written and the rows upserted.
\<close>

datatype call =
    IsConnected
  | GetPatchFiles string
  | GetInstallerFiles string pyval
  | ModdbDownloadUrl string

record world =
  heap :: "installer_file list"
  calls :: "call list"
  log :: "string list"
  config_writes :: "(pyval \<times> pyval) list"
  upserts :: "game_upsert list"

section \<open>ServiceBinder: \<open>get_service\<close> and \<open>get_appid\<close>\<close>

text \<open>\<open>name in SERVICES\<close> and \<open>SERVICES[name]()\<close>.\<close>

definition lookup_service :: "env_t \<Rightarrow> string \<Rightarrow> service_t option" where
  "lookup_service env name = SERVICES env name"

definition get_service :: "env_t \<Rightarrow> lutris_installer \<Rightarrow> service_t option \<Rightarrow> py_error + service_t option" where
  "get_service env self initial =
     (case initial of
        Some s \<Rightarrow> Inr (Some s)
      | None \<Rightarrow>
         (case py_in (PStr ''steam'') (runner self) of
            Inl e \<Rightarrow> Inl e
          | Inr in_runner \<Rightarrow>
             if in_runner \<and> lookup_service env ''steam'' \<noteq> None
             then Inr (lookup_service env ''steam'')
             else (case version self of
                     PStr v \<Rightarrow>
                       (let version = lower v in
                        if sublist ''humble'' version \<and> lookup_service env ''humblebundle'' \<noteq> None
                        then Inr (lookup_service env ''humblebundle'')
                        else if sublist ''gog'' version \<and> lookup_service env ''gog'' \<noteq> None
                        then Inr (lookup_service env ''gog'')
                        else Inr None)
                   | _ \<Rightarrow> Inl AttributeError)))"

text \<open>
  \<open>get_appid(installer, initial)\<close>: \<open>installer\<close> is the installer dictionary,
  \<open>initial\<close> the identifier the caller supplied (\<open>None\<close> when there is none).
\<close>

definition get_appid :: "lutris_installer \<Rightarrow> (pyval \<times> pyval) list \<Rightarrow> pyval \<Rightarrow> py_error + pyval" where
  "get_appid self inst initial =
     (if truthy (dict_get inst (PStr ''is_dlc'') PNone) then Inr (dict_get inst (PStr ''dlcid'') PNone)
      else if truthy initial then Inr initial
      else case service self of
        None \<Rightarrow> Inr PNone
      | Some svc \<Rightarrow>
          if svc_id svc = ''steam''
          then Inr (py_or (dict_get inst (PStr ''steamid'') PNone) (dict_get inst (PStr ''service_id'') PNone))
          else (case py_get (script self) (PStr ''game'') (PDict []) of
                  Inl e \<Rightarrow> Inl e
                | Inr game_config \<Rightarrow>
                    if svc_id svc = ''gog''
                    then (case py_get game_config (PStr ''gogid'') PNone of
                            Inl e \<Rightarrow> Inl e
                          | Inr g \<Rightarrow> Inr (py_or g (py_or (dict_get inst (PStr ''gogid'') PNone)
                                                         (dict_get inst (PStr ''service_id'') PNone))))
                    else if svc_id svc = ''humblebundle''
                    then (case py_get game_config (PStr ''humbleid'') PNone of
                            Inl e \<Rightarrow> Inl e
                          | Inr h \<Rightarrow> Inr (py_or h (py_or (dict_get inst (PStr ''humblestoreid'') PNone)
                                                         (dict_get inst (PStr ''service_id'') PNone))))
                    else Inr PNone))"

section \<open>IdentityResolver: \<open>get_game_id\<close>\<close>

definition get_game_id :: "env_t \<Rightarrow> lutris_installer \<Rightarrow> int option" where
  "get_game_id env self =
     (case get_game_by_field env (game_slug self) ''slug'' of
        None \<Rightarrow> None
      | Some existing_game \<Rightarrow>
          if truthy (extends self) \<or> \<not> truthy (installed existing_game)
          then Some (row_id existing_game)
          else None)"

section \<open>Validation: \<open>get_errors\<close>\<close>

text \<open>\<open>"Missing field '%s'" % field\<close>.\<close>

definition missing_field :: "string \<Rightarrow> string" where
  "missing_field field = ''Missing field '' @ [CHR 0x27] @ field @ [CHR 0x27]"

text \<open>
  The loop over the required fields. All three attributes are set by the constructor,
  so \<open>hasattr\<close> holds and the test is the attribute's truthiness.
\<close>

definition check_required_fields :: "lutris_installer \<Rightarrow> string list" where
  "check_required_fields self =
     concat (map (\<lambda>(field, v). if \<not> truthy v then [missing_field field] else [])
       [(''runner'', runner self), (''game_name'', game_name self), (''game_slug'', game_slug self)])"

text \<open>
  \<open>"game" not in self.script or "core" not in self.script["game"]\<close> on the script
  dictionary \<open>sc\<close>: the second test raises when the game section is not a container.
\<close>

definition check_libretro :: "lutris_installer \<Rightarrow> (pyval \<times> pyval) list \<Rightarrow> py_error + string list" where
  "check_libretro self sc =
     (if runner self = PStr ''libretro''
      then (case map_of sc (PStr ''game'') of
              None \<Rightarrow> Inr [''Missing libretro core in game section'']
            | Some game \<Rightarrow>
                (case py_in (PStr ''core'') game of
                   Inl e \<Rightarrow> Inl e
                 | Inr has_core \<Rightarrow>
                     Inr (if \<not> has_core then [''Missing libretro core in game section''] else [])))
      else Inr [])"

text \<open>
  \<open>not self.script.get("game", {}).get("appid")\<close>: the inner \<open>get\<close> raises when the
  game section is not a dictionary.
\<close>

definition check_steam :: "lutris_installer \<Rightarrow> (pyval \<times> pyval) list \<Rightarrow> py_error + string list" where
  "check_steam self sc =
     (if runner self = PStr ''steam''
      then (case py_get (dict_get sc (PStr ''game'') (PDict [])) (PStr ''appid'') PNone of
              Inl e \<Rightarrow> Inl e
            | Inr appid \<Rightarrow> Inr (if \<not> truthy appid then [''Missing appid for Steam game''] else []))
      else Inr [])"

definition check_requires_extends :: "(pyval \<times> pyval) list \<Rightarrow> string list" where
  "check_requires_extends sc =
     (if truthy (dict_get sc (PStr ''requires'') PNone) \<and> truthy (dict_get sc (PStr ''extends'') PNone)
      then [''Scripts can't have both extends and requires'']
      else [])"

definition get_errors :: "lutris_installer \<Rightarrow> py_error + string list" where
  "get_errors self =
     (case script self of
        PDict sc \<Rightarrow>
          (case check_libretro self sc of
             Inl e \<Rightarrow> Inl e
           | Inr libretro_errors \<Rightarrow>
               (case check_steam self sc of
                  Inl e \<Rightarrow> Inl e
                | Inr steam_errors \<Rightarrow>
                    Inr (check_required_fields self @ libretro_errors @ steam_errors
                         @ check_requires_extends sc)))
      | _ \<Rightarrow> Inr [''Script must be a dictionary''])"

section \<open>String forms\<close>

text \<open>
  \<open>str(v)\<close>. A string is its own string form; \<open>None\<close>, the booleans and the integers
  print as Python prints them. The string form of a list or a dictionary starts with a
  bracket or a brace; inside it, a string is always shown between single quotes and
  unescaped, where Python escapes backslashes and switches to double quotes for a string
  that holds a single quote. The installer only compares \<open>str(v).lower()\<close> with
  \<open>'true'\<close> and \<open>'false'\<close>, which no string form starting with a bracket equals.
\<close>

definition digit_char :: "nat \<Rightarrow> char" where
  "digit_char d = ''0123456789'' ! d"

function digits :: "nat \<Rightarrow> string" where
  "digits n = (if n < 10 then [digit_char n] else digits (n div 10) @ [digit_char (n mod 10)])"
  by pat_completeness auto
termination
  by (relation "measure id") auto

definition int_str :: "int \<Rightarrow> string" where
  "int_str i = (if i < 0 then ''-'' @ digits (nat (- i)) else digits (nat i))"

function py_repr :: "pyval \<Rightarrow> string"
  and py_repr_list :: "pyval list \<Rightarrow> string"
  and py_repr_items :: "(pyval \<times> pyval) list \<Rightarrow> string" where
  "py_repr PNone = ''None''"
| "py_repr (PBool b) = (if b then ''True'' else ''False'')"
| "py_repr (PInt i) = int_str i"
| "py_repr (PStr s) = [CHR 0x27] @ s @ [CHR 0x27]"
| "py_repr (PList xs) = ''['' @ py_repr_list xs @ '']''"
| "py_repr (PDict d) = ''{'' @ py_repr_items d @ ''}''"
| "py_repr_list [] = []"
| "py_repr_list [x] = py_repr x"
| "py_repr_list (x # y # xs) = py_repr x @ '', '' @ py_repr_list (y # xs)"
| "py_repr_items [] = []"
| "py_repr_items [(k, v)] = py_repr k @ '': '' @ py_repr v"
| "py_repr_items ((k, v) # kv # kvs) = py_repr k @ '': '' @ py_repr v @ '', '' @ py_repr_items (kv # kvs)"
  by pat_completeness auto
termination
  by (relation "measure (case_sum size (case_sum (size_list size) (size_list (size_prod size size))))") auto

definition py_str :: "pyval \<Rightarrow> string" where
  "py_str v = (case v of PStr s \<Rightarrow> s | _ \<Rightarrow> py_repr v)"

text \<open>
  \<open>for x in v\<close>: the elements of a list, the keys of a dictionary, the characters of a
  string; nothing else is iterable.
\<close>

fun py_iter :: "pyval \<Rightarrow> py_error + pyval list" where
  "py_iter (PList xs) = Inr xs"
| "py_iter (PDict d) = Inr (map fst d)"
| "py_iter (PStr s) = Inr (map (\<lambda>c. PStr [c]) s)"
| "py_iter v = Inl TypeError"

section \<open>ConfigComposer: \<open>_substitute_config\<close>\<close>

text \<open>
  The two tests at the head of the loop body: a value whose string form is \<open>true\<close> or
  \<open>false\<close> in any case becomes the boolean.
\<close>

definition normalize_bool :: "pyval \<Rightarrow> pyval" where
  "normalize_bool v =
     (let value = (if lower (py_str v) = ''true'' then PBool True else v)
      in if lower (py_str value) = ''false'' then PBool False else value)"

text \<open>
  The comprehension of the \<open>launch_configs\<close> branch over the elements of the value:
  each must have \<open>items()\<close>, which only a dictionary has.
\<close>

fun substitute_launch_configs :: "(pyval \<Rightarrow> pyval) \<Rightarrow> pyval list \<Rightarrow> py_error + pyval list" where
  "substitute_launch_configs subst [] = Inr []"
| "substitute_launch_configs subst (conf # confs) =
     (case conf of
        PDict d \<Rightarrow>
          (case substitute_launch_configs subst confs of
             Inl e \<Rightarrow> Inl e
           | Inr out \<Rightarrow> Inr (PDict (map (\<lambda>(k, v). (k, subst v)) d) # out))
      | _ \<Rightarrow> Inl AttributeError)"

text \<open>The loop body after the key test: what is stored under \<open>key\<close> for the value \<open>v\<close>.\<close>

definition substitute_value :: "interpreter_t \<Rightarrow> string \<Rightarrow> pyval \<Rightarrow> py_error + pyval" where
  "substitute_value interp key v =
     (let value = normalize_bool v in
      if key = ''launch_configs''
      then (case py_iter value of
              Inl e \<Rightarrow> Inl e
            | Inr confs \<Rightarrow>
                (case substitute_launch_configs (substitute interp) confs of
                   Inl e \<Rightarrow> Inl e
                 | Inr out \<Rightarrow> Inr (PList out)))
      else (case value of
              PList xs \<Rightarrow> Inr (PList (map (substitute interp) xs))
            | PDict d \<Rightarrow> Inr (PDict (map (\<lambda>(k, x). (k, substitute interp x)) d))
            | PBool b \<Rightarrow> Inr (PBool b)
            | _ \<Rightarrow> Inr (substitute interp value)))"

text \<open>
  The loop \<open>for key in script_config\<close> over the keys still to visit; the first key that
  is not a string and the first value that cannot be composed end it with their error.
\<close>

fun substitute_keys :: "interpreter_t \<Rightarrow> pyval \<Rightarrow> pyval list \<Rightarrow> py_error + (pyval \<times> pyval) list" where
  "substitute_keys interp script_config [] = Inr []"
| "substitute_keys interp script_config (key # keys) =
     (case key of
        PStr k \<Rightarrow>
          (case py_getitem script_config key of
             Inl e \<Rightarrow> Inl e
           | Inr v \<Rightarrow>
               (case substitute_value interp k v of
                  Inl e \<Rightarrow> Inl e
                | Inr v' \<Rightarrow>
                    (case substitute_keys interp script_config keys of
                       Inl e \<Rightarrow> Inl e
                     | Inr config \<Rightarrow> Inr ((key, v') # config))))
      | _ \<Rightarrow> Inl (ScriptingError ''Game config key must be a string'' key))"

definition substitute_config :: "interpreter_t \<Rightarrow> pyval \<Rightarrow> py_error + pyval" where
  "substitute_config interp script_config =
     (case py_iter script_config of
        Inl e \<Rightarrow> Inl e
      | Inr keys \<Rightarrow>
          (case substitute_keys interp script_config keys of
             Inl e \<Rightarrow> Inl e
           | Inr config \<Rightarrow> Inr (PDict config)))"

section \<open>ConfigComposer: the launcher shortcut\<close>

text \<open>\<open>os.path.join(a, b)\<close> of \<open>posixpath\<close> on two strings; another operand raises.\<close>

definition posix_join :: "string \<Rightarrow> string \<Rightarrow> string" where
  "posix_join a b =
     (if prefix ''/'' b then b
      else if a = [] \<or> last a = CHR ''/'' then a @ b
      else a @ ''/'' @ b)"

fun os_path_join :: "pyval \<Rightarrow> pyval \<Rightarrow> py_error + string" where
  "os_path_join (PStr a) (PStr b) = Inr (posix_join a b)"
| "os_path_join a b = Inl TypeError"

text \<open>The loop of the list branch: an installed file's path, or the element as it is.\<close>

fun launcher_values :: "(pyval \<times> pyval) list \<Rightarrow> pyval list \<Rightarrow> py_error + pyval list" where
  "launcher_values gfiles [] = Inr []"
| "launcher_values gfiles (game_file # rest) =
     (case py_in game_file (PDict gfiles) of
        Inl e \<Rightarrow> Inl e
      | Inr found \<Rightarrow>
          (case launcher_values gfiles rest of
             Inl e \<Rightarrow> Inl e
           | Inr out \<Rightarrow>
               Inr ((if found then dict_get gfiles game_file PNone else game_file) # out)))"

text \<open>
  \<open>get_game_launcher_config(game_files)\<close>. \<open>get_game_launcher\<close> (of
  \<open>lutris.installer.legacy\<close>) and \<open>os.path.exists\<close> are the environment's.
\<close>

definition get_game_launcher_config ::
  "env_t \<Rightarrow> lutris_installer \<Rightarrow> (pyval \<times> pyval) list \<Rightarrow> py_error + pyval \<times> pyval" where
  "get_game_launcher_config env self gfiles =
     (let (launcher, launcher_value) = get_game_launcher env (script self) in
      case launcher_value of
        PList game_file_list \<Rightarrow>
          (case launcher_values gfiles game_file_list of
             Inl e \<Rightarrow> Inl e
           | Inr vals \<Rightarrow> Inr (launcher, PList vals))
      | _ \<Rightarrow>
          if truthy launcher_value
          then (case py_in launcher_value (PDict gfiles) of
                  Inl e \<Rightarrow> Inl e
                | Inr found \<Rightarrow>
                    if found then Inr (launcher, dict_get gfiles launcher_value PNone)
                    else if truthy (target_path (interpreter self))
                    then (case os_path_join (target_path (interpreter self)) launcher_value of
                            Inl e \<Rightarrow> Inl e
                          | Inr joined \<Rightarrow>
                              if path_exists env joined then Inr (launcher, PStr joined)
                              else Inr (launcher, launcher_value))
                    else Inr (launcher, launcher_value))
          else Inr (launcher, launcher_value))"

section \<open>FileAcquisitionPlanner: \<open>prepare_game_files\<close>\<close>

text \<open>
  Modelled from the spec: the constructor and the methods \<open>copy()\<close> and \<open>set_url\<close>
  of the class \<open>InstallerFile\<close>, which is not part of the sources at hand. A new
  instance (from the constructor, or from \<open>copy()\<close>, which the spec describes as
  producing a new instance, so that a substitution changes the working copy and never
  the declared file) is a fresh address holding the value; \<open>set_url\<close> overwrites the
  URL of the object at an address.
\<close>

definition alloc :: "installer_file \<Rightarrow> world \<Rightarrow> nat \<times> world" where
  "alloc f w = (length (heap w), w\<lparr>heap := heap w @ [f]\<rparr>)"

definition set_url :: "nat \<Rightarrow> string \<Rightarrow> world \<Rightarrow> world" where
  "set_url a u w = w\<lparr>heap := (heap w)[a := (heap w ! a)\<lparr>url := u\<rparr>]\<rparr>"

text \<open>\<open>get_user_provided_file\<close>: the id of the first declared file whose URL starts with \<open>N/A\<close>.\<close>

definition get_user_provided_file :: "lutris_installer \<Rightarrow> world \<Rightarrow> string option" where
  "get_user_provided_file self w =
     (case find (\<lambda>a. prefix ''N/A'' (url (heap w ! a))) (script_files self) of
        Some a \<Rightarrow> Some (file_id (heap w ! a))
      | None \<Rightarrow> None)"

text \<open>
  \<open>[file.copy() for file in self.script_files if file.id != installer_file_id]\<close>: when
  no id is held aside (\<open>None\<close>), every file differs from it.
\<close>

fun copy_files :: "string option \<Rightarrow> nat list \<Rightarrow> world \<Rightarrow> nat list \<times> world" where
  "copy_files installer_file_id [] w = ([], w)"
| "copy_files installer_file_id (a # rest) w =
     (if Some (file_id (heap w ! a)) \<noteq> installer_file_id
      then (let (c, w1) = alloc (heap w ! a) w;
                (cs, w2) = copy_files installer_file_id rest w1
            in (c # cs, w2))
      else copy_files installer_file_id rest w)"

text \<open>
  The loop over \<open>self.files\<close>: variable substitution on the URL, then the ModDB
  rewrite when the substituted URL is a ModDB one (a call to the helper, recorded).
\<close>

fun substitute_urls :: "env_t \<Rightarrow> interpreter_t \<Rightarrow> nat list \<Rightarrow> world \<Rightarrow> world" where
  "substitute_urls env interp [] w = w"
| "substitute_urls env interp (a # rest) w =
     (let w1 = set_url a (substitute_url interp (url (heap w ! a))) w;
          u = url (heap w1 ! a);
          w2 = (if is_moddb_url env u
                then set_url a (get_moddb_download_url env u) (w1\<lparr>calls := calls w1 @ [ModdbDownloadUrl u]\<rparr>)
                else w1)
      in substitute_urls env interp rest w2)"

text \<open>The objects a provider returns are new ones: each gets a fresh address.\<close>

fun alloc_all :: "installer_file list \<Rightarrow> world \<Rightarrow> nat list \<times> world" where
  "alloc_all [] w = ([], w)"
| "alloc_all (f # fs) w =
     (let (a, w1) = alloc f w; (as, w2) = alloc_all fs w1 in (a # as, w2))"

text \<open>
  The block under \<open>if installer_file_id and self.service\<close>: the request to the provider
  \<open>svc\<close> for the held-aside id \<open>fid\<close>, and what is done with its answer.
\<close>

definition provider_files ::
  "lutris_installer \<Rightarrow> service_t \<Rightarrow> string \<Rightarrow> pyval \<Rightarrow> world \<Rightarrow> (py_error + unit) \<times> lutris_installer \<times> world" where
  "provider_files self svc fid patch_version w =
     (let w1 = w\<lparr>log := log w @ [''Getting files for '' @ fid]\<rparr>;
          (svc1, w2) =
             (if has_extras svc
              then (svc\<lparr>selected_extras := extras (interpreter self)\<rparr>,
                    w1\<lparr>log := log w1 @ [''Adding selected extras to downloads'']\<rparr>)
              else (svc, w1));
          self1 = self\<lparr>service := Some svc1\<rparr>;
          (installer_files, w3) =
             (if truthy patch_version
              then (get_patch_files svc1 fid, w2\<lparr>calls := calls w2 @ [GetPatchFiles fid]\<rparr>)
              else (get_installer_files svc1 fid (extras (interpreter self)),
                    w2\<lparr>calls := calls w2 @ [GetInstallerFiles fid (extras (interpreter self))]\<rparr>))
      in case installer_files of
           Some (f # fs) \<Rightarrow>
             (let (addrs, w4) = alloc_all (f # fs) w3
              in (Inr (), self1\<lparr>files := files self1 @ addrs\<rparr>, w4))
         | _ \<Rightarrow>
             (let w4 = w3\<lparr>log := log w3 @ [''Unable to get files from service. Setting '' @ fid @ '' to manual.'']\<rparr>;
                  (a, w5) = alloc \<lparr>file_game_slug = game_slug self, file_id = fid,
                                   url = ''N/A: Provider installer file'', filename = ''''\<rparr> w4
              in (Inr (), self1\<lparr>files := a # files self1\<rparr>, w5)))"

text \<open>What \<open>prepare_game_files\<close> does once the authentication test has passed.\<close>

definition gather_game_files ::
  "env_t \<Rightarrow> lutris_installer \<Rightarrow> pyval \<Rightarrow> world \<Rightarrow> (py_error + unit) \<times> lutris_installer \<times> world" where
  "gather_game_files env self patch_version w =
     (let installer_file_id = (if service self \<noteq> None then get_user_provided_file self w else None);
          (copies, w1) = copy_files installer_file_id (script_files self) w;
          self1 = self\<lparr>files := copies\<rparr>;
          w2 = substitute_urls env (interpreter self) (files self1) w1
      in case (installer_file_id, service self1) of
           (Some fid, Some svc) \<Rightarrow>
             if fid \<noteq> [] then provider_files self1 svc fid patch_version w2
             else (Inr (), self1, w2)
         | _ \<Rightarrow> (Inr (), self1, w2))"

text \<open>
  \<open>prepare_game_files(patch_version)\<close>. The result is the outcome (an error raised, or
  the normal return of \<open>None\<close>) together with the installer and the world as the call
  leaves them. \<open>is_connected()\<close> is only called on an online provider.
\<close>

definition prepare_game_files ::
  "env_t \<Rightarrow> lutris_installer \<Rightarrow> pyval \<Rightarrow> world \<Rightarrow> (py_error + unit) \<times> lutris_installer \<times> world" where
  "prepare_game_files env self patch_version w =
     (if script_files self = [] then (Inr (), self, w)
      else case service self of
        None \<Rightarrow> gather_game_files env self patch_version w
      | Some svc \<Rightarrow>
          if online svc
          then (let w1 = w\<lparr>calls := calls w @ [IsConnected]\<rparr>
                in if \<not> is_connected svc
                   then (Inl (AuthenticationError (svc_id svc)), self, w1)
                   else gather_game_files env self patch_version w1)
          else gather_game_files env self patch_version w)"

text \<open>
  What one pass of the URL loop makes of a file: the substituted URL, replaced by the
  ModDB download URL when it is a ModDB one.
\<close>

definition rewrite_url :: "env_t \<Rightarrow> interpreter_t \<Rightarrow> installer_file \<Rightarrow> installer_file" where
  "rewrite_url env interp f =
     (let u = substitute_url interp (url f)
      in f\<lparr>url := (if is_moddb_url env u then get_moddb_download_url env u else u)\<rparr>)"

section \<open>ConfigComposer: \<open>get_game_config\<close>\<close>

text \<open>Sequencing of steps that may raise.\<close>

definition bind_err :: "py_error + 'a \<Rightarrow> ('a \<Rightarrow> py_error + 'b) \<Rightarrow> py_error + 'b" where
  "bind_err step continue = case_sum Inl continue step"

text \<open>\<open>d[k] = v\<close> on a dictionary: an existing key keeps its place, a new one goes last.\<close>

fun dict_set :: "(pyval \<times> pyval) list \<Rightarrow> pyval \<Rightarrow> pyval \<Rightarrow> (pyval \<times> pyval) list" where
  "dict_set [] k v = [(k, v)]"
| "dict_set ((k', v') # d) k v = (if k' = k then (k, v) # d else (k', v') # dict_set d k v)"

fun py_setitem :: "pyval \<Rightarrow> pyval \<Rightarrow> pyval \<Rightarrow> py_error + pyval" where
  "py_setitem (PDict d) k v = (if py_hashable k then Inr (PDict (dict_set d k v)) else Inl TypeError)"
| "py_setitem c k v = Inl TypeError"

text \<open>
  \<open>d.update(other)\<close>. A dictionary is merged in. Any other iterable must yield
  key/value pairs: an element that is a sequence of another length raises
  \<open>ValueError\<close>, an element that is not iterable raises \<open>TypeError\<close>, and so does an
  argument that is not iterable. The characters of a string are sequences of length one.
\<close>

fun update_pair :: "pyval \<Rightarrow> py_error + pyval \<times> pyval" where
  "update_pair (PList [k, v]) = (if py_hashable k then Inr (k, v) else Inl TypeError)"
| "update_pair (PList xs) = Inl ValueError"
| "update_pair (PStr [a, b]) = Inr (PStr [a], PStr [b])"
| "update_pair (PStr s) = Inl ValueError"
| "update_pair (PDict [(k1, v1), (k2, v2)]) = Inr (k1, k2)"
| "update_pair (PDict d) = Inl ValueError"
| "update_pair v = Inl TypeError"

fun update_pairs :: "(pyval \<times> pyval) list \<Rightarrow> pyval list \<Rightarrow> py_error + (pyval \<times> pyval) list" where
  "update_pairs d [] = Inr d"
| "update_pairs d (x # xs) =
     (case update_pair x of
        Inl e \<Rightarrow> Inl e
      | Inr (k, v) \<Rightarrow> update_pairs (dict_set d k v) xs)"

fun py_update :: "pyval \<Rightarrow> pyval \<Rightarrow> py_error + pyval" where
  "py_update (PDict d) (PDict other) = Inr (PDict (foldl (\<lambda>acc (k, v). dict_set acc k v) d other))"
| "py_update (PDict d) (PList xs) = (case update_pairs d xs of Inl e \<Rightarrow> Inl e | Inr d' \<Rightarrow> Inr (PDict d'))"
| "py_update (PDict d) (PStr s) = (if s = [] then Inr (PDict d) else Inl ValueError)"
| "py_update (PDict d) v = Inl TypeError"
| "py_update c v = Inl AttributeError"

text \<open>
  The base configuration: the game-level configuration of the required game (looked up
  by installer slug, then by slug), or a configuration with an empty game section.
\<close>

definition base_config :: "env_t \<Rightarrow> lutris_installer \<Rightarrow> py_error + pyval" where
  "base_config env self =
     (if truthy (requires self)
      then (case get_game_by_field env (requires self) ''installer_slug'' of
              Some required_game \<Rightarrow> Inr (game_level env (runner self) (configpath required_game))
            | None \<Rightarrow>
                (case get_game_by_field env (requires self) ''slug'' of
                   Some required_game \<Rightarrow> Inr (game_level env (runner self) (configpath required_game))
                 | None \<Rightarrow> Inl ValueError))
      else Inr (PDict [(PStr ''game'', PDict [])]))"

text \<open>\<open>if "system" in self.script: config["system"] = ...\<close>.\<close>

definition update_system :: "lutris_installer \<Rightarrow> pyval \<Rightarrow> py_error + pyval" where
  "update_system self config =
     bind_err (py_in (PStr ''system'') (script self)) (\<lambda>present.
       if present
       then bind_err (py_getitem (script self) (PStr ''system'')) (\<lambda>section.
            bind_err (substitute_config (interpreter self) section) (\<lambda>substituted.
              py_setitem config (PStr ''system'') substituted))
       else Inr config)"

text \<open>\<open>if self.runner in self.script and self.script[self.runner]: config[self.runner] = ...\<close>.\<close>

definition update_runner :: "lutris_installer \<Rightarrow> pyval \<Rightarrow> py_error + pyval" where
  "update_runner self config =
     bind_err (py_in (runner self) (script self)) (\<lambda>present.
       if present
       then bind_err (py_getitem (script self) (runner self)) (\<lambda>section.
              if truthy section
              then bind_err (substitute_config (interpreter self) section) (\<lambda>substituted.
                     py_setitem config (runner self) substituted)
              else Inr config)
       else Inr config)"

text \<open>The launcher shortcut, folded into the game section: \<open>config["game"][launcher] = launcher_config\<close>.\<close>

definition update_launcher :: "env_t \<Rightarrow> lutris_installer \<Rightarrow> pyval \<Rightarrow> py_error + pyval" where
  "update_launcher env self config =
     bind_err (get_game_launcher_config env self (game_files (interpreter self))) (\<lambda>(launcher, launcher_config).
       if truthy launcher
       then bind_err (py_getitem config (PStr ''game'')) (\<lambda>game.
            bind_err (py_setitem game launcher launcher_config) (\<lambda>game'.
              py_setitem config (PStr ''game'') game'))
       else Inr config)"

text \<open>
  The block under \<open>if "game" in self.script\<close>: the merge (the method \<open>update\<close>
  is looked up on the game section before its argument is evaluated; a \<open>ValueError\<close>
  of \<open>update\<close> becomes a \<open>ScriptingError\<close>), the substitution, and the two sentinels
  for an executable to be found in the install target.
\<close>

definition update_game :: "env_t \<Rightarrow> lutris_installer \<Rightarrow> pyval \<Rightarrow> py_error + pyval" where
  "update_game env self config =
     bind_err (py_in (PStr ''game'') (script self)) (\<lambda>present.
       if present
       then bind_err (py_getitem config (PStr ''game'')) (\<lambda>game.
            bind_err (if is_dict game then Inr game else Inl AttributeError) (\<lambda>game.
            bind_err (py_getitem (script self) (PStr ''game'')) (\<lambda>script_game.
            bind_err (case py_update game script_game of
                        Inl ValueError \<Rightarrow> Inl (ScriptingError ''Invalid 'game' section'' script_game)
                      | Inl e \<Rightarrow> Inl e
                      | Inr merged \<Rightarrow> Inr merged) (\<lambda>merged.
            bind_err (substitute_config (interpreter self) merged) (\<lambda>substituted.
            bind_err (py_get substituted (PStr ''exe'') (PStr [])) (\<lambda>exe.
            bind_err (py_in (PStr (AUTO_ELF_EXE env)) exe) (\<lambda>auto_elf.
              if auto_elf
              then bind_err (find_linux_game_executable env (target_path (interpreter self))) (\<lambda>found.
                   bind_err (py_setitem substituted (PStr ''exe'') found) (\<lambda>game'.
                     py_setitem config (PStr ''game'') game'))
              else bind_err (py_in (PStr (AUTO_WIN32_EXE env)) exe) (\<lambda>auto_win32.
                if auto_win32
                then bind_err (find_windows_game_executable env (target_path (interpreter self))) (\<lambda>found.
                     bind_err (py_setitem substituted (PStr ''exe'') found) (\<lambda>game'.
                       py_setitem config (PStr ''game'') game'))
                else py_setitem config (PStr ''game'') substituted))))))))
       else Inr config)"

text \<open>The identity metadata stamped on the configuration, and the provider when one is bound.\<close>

definition stamp_metadata :: "lutris_installer \<Rightarrow> (pyval \<times> pyval) list \<Rightarrow> (pyval \<times> pyval) list" where
  "stamp_metadata self config =
     (let stamped = foldl (\<lambda>acc (k, v). dict_set acc (PStr k) v) config
            [(''name'', game_name self), (''script'', script self), (''variables'', variables self),
             (''version'', version self), (''requires'', requires self), (''slug'', slug self),
             (''game_slug'', game_slug self), (''year'', year self)]
      in case service self of
           Some svc \<Rightarrow> dict_set (dict_set stamped (PStr ''service'') (PStr (svc_id svc)))
                         (PStr ''service_id'') (service_appid self)
         | None \<Rightarrow> stamped)"

text \<open>
  \<open>get_game_config()\<close>. The executable finder may set a permission bit on disk; the
  world of this model does not hold file permissions.
\<close>

definition get_game_config :: "env_t \<Rightarrow> lutris_installer \<Rightarrow> py_error + pyval" where
  "get_game_config env self =
     bind_err (base_config env self) (\<lambda>config0.
     bind_err (update_system self config0) (\<lambda>config1.
     bind_err (update_runner self config1) (\<lambda>config2.
     bind_err (update_launcher env self config2) (\<lambda>config3.
     bind_err (update_game env self config3) (\<lambda>config4.
       case config4 of
         PDict d \<Rightarrow> Inr (PDict (stamp_metadata self d))
       | _ \<Rightarrow> Inl TypeError)))))"

section \<open>InstallRecorder: \<open>save\<close>\<close>

text \<open>
  The GOG adaptation: \<open>self.script["game"].update(lutris_config)\<close> when the install
  target holds a GOG configuration. It changes the script in place, and the script is the
  object the constructor took from the installer dictionary (\<open>installer.get("script")\<close>),
  so the entry \<open>script\<close> of that dictionary shows the change too.
\<close>

definition apply_gog_config :: "env_t \<Rightarrow> lutris_installer \<Rightarrow> py_error + lutris_installer" where
  "apply_gog_config env self =
     (if is_gog self
      then (let gog_config = get_gog_config_from_path env (target_path (interpreter self)) in
            if truthy gog_config
            then (let gog_game_path = get_gog_game_path env (target_path (interpreter self));
                      lutris_config = convert_gog_config_to_lutris env gog_config gog_game_path in
                  bind_err (py_getitem (script self) (PStr ''game'')) (\<lambda>game.
                  bind_err (py_update game lutris_config) (\<lambda>game'.
                  bind_err (py_setitem (script self) (PStr ''game'') game') (\<lambda>script'.
                    Inr (self\<lparr>script := script',
                              installer := map (\<lambda>(k, v). if k = PStr ''script'' then (k, script') else (k, v))
                                             (installer self)\<rparr>)))))
            else Inr self)
      else Inr self)"

text \<open>The keyword arguments \<open>save\<close> passes to \<open>add_or_update\<close>.\<close>

definition upsert_args :: "env_t \<Rightarrow> lutris_installer \<Rightarrow> pyval \<Rightarrow> game_upsert" where
  "upsert_args env self cfgpath =
     \<lparr>up_name = game_name self,
      up_runner = runner self,
      up_slug = game_slug self,
      up_platform = get_platform env (runner self),
      up_directory = target_path (interpreter self),
      up_installed = 1,
      up_hidden = 0,
      up_installer_slug = slug self,
      up_parent_slug = requires self,
      up_year = year self,
      up_configpath = cfgpath,
      up_service = (case service self of Some svc \<Rightarrow> Some (svc_id svc) | None \<Rightarrow> None),
      up_service_id = service_appid self,
      up_id = game_id self,
      up_discord_id = discord_id self\<rparr>"

text \<open>
  \<open>save()\<close>: the outcome (an error, or the id returned), and the installer and the world
  as the call leaves them. A configuration file written and a row upserted are recorded
  in the world.
\<close>

definition save :: "env_t \<Rightarrow> lutris_installer \<Rightarrow> world \<Rightarrow> (py_error + int option) \<times> lutris_installer \<times> world" where
  "save env self w =
     (if truthy (extends self)
      then (Inr (game_id self), self,
            w\<lparr>log := log w @ [''This is an extension to '' @ py_str (extends self)
                               @ '', not creating a new game entry'']\<rparr>)
      else case apply_gog_config env self of
        Inl e \<Rightarrow> (Inl e, self, w)
      | Inr self1 \<Rightarrow>
          (case get_game_config env self1 of
             Inl e \<Rightarrow> (Inl e, self1, w)
           | Inr config \<Rightarrow>
               (let cfgpath = write_game_config env (slug self1) config;
                    w1 = w\<lparr>config_writes := config_writes w @ [(slug self1, config)]\<rparr>;
                    args = upsert_args env self1 cfgpath;
                    new_id = add_or_update env args;
                    w2 = w1\<lparr>upserts := upserts w1 @ [args]\<rparr>
                in (Inr (Some new_id), self1\<lparr>game_id := Some new_id\<rparr>, w2))))"

section \<open>Example inputs\<close>

text \<open>
  Concrete collaborators and a concrete installer, on which the theorems below are
  evaluated: a store holding one row for the slug \<open>foo\<close>, not marked installed, and an
  installer for that slug with an empty script and no provider.
\<close>

definition example_interpreter :: interpreter_t where
  "example_interpreter =
     \<lparr>substitute = (\<lambda>v. v), substitute_url = (\<lambda>u. u),
      game_files = [(PStr ''main.exe'', PStr ''/install/main.exe'')],
      target_path = PStr ''/install'', extras = PList []\<rparr>"

definition example_row :: game_row where
  "example_row = \<lparr>row_id = 7, installed = PInt 0, configpath = PStr ''foo-1''\<rparr>"

definition example_env :: env_t where
  "example_env =
     \<lparr>SERVICES = (\<lambda>name. None),
      get_game_by_field = (\<lambda>v field. if v = PStr ''foo'' \<and> field = ''slug'' then Some example_row else None),
      game_level = (\<lambda>r c. PDict [(PStr ''game'', PDict [])]),
      write_game_config = (\<lambda>s c. PStr ''foo-1''),
      add_or_update = (\<lambda>u. 8),
      get_platform = (\<lambda>r. PStr ''Linux''),
      find_linux_game_executable = (\<lambda>p. Inl DiscoveryError),
      find_windows_game_executable = (\<lambda>p. Inl DiscoveryError),
      get_gog_config_from_path = (\<lambda>p. PNone),
      get_gog_game_path = (\<lambda>p. PNone),
      convert_gog_config_to_lutris = (\<lambda>c p. PDict []),
      is_moddb_url = (\<lambda>u. False),
      get_moddb_download_url = (\<lambda>u. u),
      get_game_launcher = (\<lambda>s. (PNone, PNone)),
      path_exists = (\<lambda>p. p = ''/install/main.exe''),
      AUTO_ELF_EXE = ''_xXx_AUTO_ELF_xXx_'',
      AUTO_WIN32_EXE = ''_xXx_AUTO_WIN32_xXx_''\<rparr>"

definition example_service :: service_t where
  "example_service =
     \<lparr>svc_id = ''gog'', online = True, has_extras = False, is_connected = True,
      selected_extras = PNone,
      get_patch_files = (\<lambda>fid. None),
      get_installer_files = (\<lambda>fid ex. None)\<rparr>"

definition example_installer :: lutris_installer where
  "example_installer =
     \<lparr>interpreter = example_interpreter,
      installer = [(PStr ''slug'', PStr ''foo-installer'')],
      is_update = False,
      version = PStr ''1.0'',
      slug = PStr ''foo-installer'',
      year = PInt 2001,
      runner = PStr ''linux'',
      script = PDict [],
      game_name = PStr ''Foo'',
      game_slug = PStr ''foo'',
      service = None,
      service_appid = PNone,
      variables = PDict [],
      script_files = [],
      files = [],
      requires = PNone,
      extends = PNone,
      game_id = None,
      is_gog = False,
      discord_id = PNone\<rparr>"

text \<open>
  A heap with two declared files, the first one to be supplied by the user, and an
  installer that declares them and is bound to a provider that resolves no file.
\<close>

definition example_world :: world where
  "example_world =
     \<lparr>heap = [\<lparr>file_game_slug = PStr ''foo'', file_id = ''installer'',
               url = ''N/A: Select the installer'', filename = ''setup.exe''\<rparr>,
              \<lparr>file_game_slug = PStr ''foo'', file_id = ''patch'',
               url = ''$CACHE/patch.zip'', filename = ''patch.zip''\<rparr>],
      calls = [], log = [], config_writes = [], upserts = []\<rparr>"

definition example_files_installer :: lutris_installer where
  "example_files_installer =
     example_installer\<lparr>service := Some example_service, script_files := [0, 1],
       interpreter := example_interpreter\<lparr>substitute_url := (\<lambda>u. ''/cache'' @ drop 6 u)\<rparr>\<rparr>"

text \<open>
  Three more heaps for the same installer: one where the file to be supplied by the user
  is declared second, one where it has the empty string as its id, and one where both
  declared files are to be supplied by the user.
\<close>

definition example_world_patch_first :: world where
  "example_world_patch_first =
     \<lparr>heap = [\<lparr>file_game_slug = PStr ''foo'', file_id = ''patch'',
               url = ''$CACHE/patch.zip'', filename = ''patch.zip''\<rparr>,
              \<lparr>file_game_slug = PStr ''foo'', file_id = ''installer'',
               url = ''N/A: Select the installer'', filename = ''setup.exe''\<rparr>],
      calls = [], log = [], config_writes = [], upserts = []\<rparr>"

definition example_world_empty_id :: world where
  "example_world_empty_id =
     \<lparr>heap = [\<lparr>file_game_slug = PStr ''foo'', file_id = [],
               url = ''N/A: Select the installer'', filename = ''setup.exe''\<rparr>,
              \<lparr>file_game_slug = PStr ''foo'', file_id = ''patch'',
               url = ''$CACHE/patch.zip'', filename = ''patch.zip''\<rparr>],
      calls = [], log = [], config_writes = [], upserts = []\<rparr>"

definition example_world_two_manual :: world where
  "example_world_two_manual =
     \<lparr>heap = [\<lparr>file_game_slug = PStr ''foo'', file_id = ''installer'',
               url = ''N/A: Select the installer'', filename = ''setup.exe''\<rparr>,
              \<lparr>file_game_slug = PStr ''foo'', file_id = ''extra'',
               url = ''N/A: Select the extra content'', filename = ''extra.zip''\<rparr>],
      calls = [], log = [], config_writes = [], upserts = []\<rparr>"

text \<open>The definitions of the example inputs, to evaluate with.\<close>

lemmas example_defs = example_files_installer_def example_installer_def example_service_def
  example_world_def example_interpreter_def example_env_def

section \<open>Identity resolution\<close>

text \<open>
  Claim C1, as amended. \<open>get_game_id\<close> returns an id exactly when the store has a row
  for the game slug and either the installer extends another (\<open>extends\<close> is truthy) or
  the row is not marked installed; the id is that row's, and in every other case
  (no row among them) the result is \<open>None\<close>. Whether the script declares
  \<open>requires\<close> plays no role: changing that attribute never changes the result.
\<close>

theorem get_game_id_iff:
  "(get_game_id env self = Some i \<longleftrightarrow>
      (\<exists>g. get_game_by_field env (game_slug self) ''slug'' = Some g \<and> row_id g = i
           \<and> (truthy (extends self) \<or> \<not> truthy (installed g))))
   \<and> get_game_id env (self\<lparr>requires := r\<rparr>) = get_game_id env self"
  by (auto simp: get_game_id_def split: option.splits)

text \<open>The theorem at the example store: a resumed install, an unknown slug, and a script with \<open>requires\<close>.\<close>

theorem get_game_id_iff_witness:
  "get_game_id example_env example_installer = Some 7
   \<and> get_game_id example_env (example_installer\<lparr>game_slug := PStr ''bar''\<rparr>) = None
   \<and> get_game_id example_env (example_installer\<lparr>requires := PStr ''base-game''\<rparr>) = Some 7"
  using get_game_id_iff [of example_env example_installer 7 "PStr ''base-game''"]
  by (simp add: get_game_id_def example_env_def example_installer_def example_row_def)

text \<open>
  Claim C1 as written fails: with \<open>requires\<close> declared, no \<open>extends\<close>, and a row
  that is not marked installed, the claim promises no id; the code returns the row's id.
\<close>

theorem get_game_id_requires_counterexample:
  "get_game_id example_env (example_installer\<lparr>requires := PStr ''base-game''\<rparr>) = Some 7
   \<and> truthy (requires (example_installer\<lparr>requires := PStr ''base-game''\<rparr>))
   \<and> \<not> truthy (extends (example_installer\<lparr>requires := PStr ''base-game''\<rparr>))"
  by (simp add: get_game_id_def example_env_def example_installer_def example_row_def)

section \<open>Validation\<close>

text \<open>
  Claim C5, as amended. For a script that is a dictionary and sets both \<open>requires\<close> and
  \<open>extends\<close> to truthy values: whenever \<open>get_errors\<close> returns a list, the list holds
  the finding "Scripts can't have both extends and requires"; and it does return a list
  holding the finding when the runner is neither \<open>libretro\<close> nor \<open>steam\<close>, or the
  \<open>game\<close> section is absent or a dictionary. \<open>get_errors\<close> is a function of the
  installer's attributes alone: it takes no store and no world, so it reads and writes
  neither.
\<close>

theorem get_errors_requires_extends:
  assumes "script self = PDict sc"
    and "truthy (dict_get sc (PStr ''requires'') PNone)"
    and "truthy (dict_get sc (PStr ''extends'') PNone)"
  shows "(get_errors self = Inr errs \<longrightarrow> ''Scripts can't have both extends and requires'' \<in> set errs)
    \<and> (runner self \<notin> {PStr ''libretro'', PStr ''steam''} \<or> is_dict (dict_get sc (PStr ''game'') (PDict []))
        \<longrightarrow> (\<exists>errs'. get_errors self = Inr errs'
              \<and> ''Scripts can't have both extends and requires'' \<in> set errs'))"
proof -
  have fin: "''Scripts can't have both extends and requires'' \<in> set (check_requires_extends sc)"
    using assms(2,3) by (simp add: check_requires_extends_def)
  have part: "get_errors self = Inr es \<Longrightarrow> ''Scripts can't have both extends and requires'' \<in> set es" for es
    using fin assms(1) by (auto simp: get_errors_def split: sum.splits)
  have ret: "\<exists>es. get_errors self = Inr es"
    if ok: "runner self \<notin> {PStr ''libretro'', PStr ''steam''} \<or> is_dict (dict_get sc (PStr ''game'') (PDict []))"
  proof -
    have l: "\<exists>x. check_libretro self sc = Inr x"
      using ok by (cases "map_of sc (PStr ''game'')"; cases "dict_get sc (PStr ''game'') (PDict [])")
        (auto simp: check_libretro_def dict_get_def split: option.splits)
    have s: "\<exists>x. check_steam self sc = Inr x"
      using ok by (cases "dict_get sc (PStr ''game'') (PDict [])") (auto simp: check_steam_def)
    from l s show ?thesis using assms(1) by (auto simp: get_errors_def)
  qed
  show ?thesis using part ret by blast
qed

text \<open>The theorem at a Steam script with a well-formed game section.\<close>

theorem get_errors_requires_extends_witness:
  "get_errors (example_installer\<lparr>runner := PStr ''steam'',
       script := PDict [(PStr ''game'', PDict [(PStr ''appid'', PInt 70)]),
                        (PStr ''requires'', PStr ''a''), (PStr ''extends'', PStr ''b'')]\<rparr>)
     = Inr [''Scripts can't have both extends and requires'']"
  using get_errors_requires_extends [of
    "example_installer\<lparr>runner := PStr ''steam'',
       script := PDict [(PStr ''game'', PDict [(PStr ''appid'', PInt 70)]),
                        (PStr ''requires'', PStr ''a''), (PStr ''extends'', PStr ''b'')]\<rparr>"
    "[(PStr ''game'', PDict [(PStr ''appid'', PInt 70)]),
                        (PStr ''requires'', PStr ''a''), (PStr ''extends'', PStr ''b'')]"]
  by (simp add: get_errors_def check_libretro_def check_steam_def check_required_fields_def
      check_requires_extends_def dict_get_def example_installer_def)

text \<open>
  Claim C5 as written fails: for a Steam script whose \<open>game\<close> section is empty
  (\<open>None\<close>), \<open>self.script.get("game", {}).get("appid")\<close> raises before the
  \<open>requires\<close>/\<open>extends\<close> check is reached, and no list is returned.
\<close>

theorem get_errors_both_counterexample:
  "get_errors (example_installer\<lparr>runner := PStr ''steam'',
       script := PDict [(PStr ''game'', PNone), (PStr ''requires'', PStr ''a''), (PStr ''extends'', PStr ''b'')]\<rparr>)
     = Inl AttributeError"
  by (simp add: get_errors_def check_libretro_def check_steam_def dict_get_def example_installer_def)

text \<open>
  Claim C10. When the script is not a dictionary, \<open>get_errors\<close> returns exactly the list
  with the one finding "Script must be a dictionary": no other validation adds a
  finding or raises, whatever the other attributes are.
\<close>

theorem get_errors_non_dict:
  "\<not> is_dict (script self) \<Longrightarrow> get_errors self = Inr [''Script must be a dictionary'']"
  by (cases "script self") (simp_all add: get_errors_def)

text \<open>
  The theorem at an installer with a \<open>libretro\<close> runner and an empty game name, where the
  other validations would each have reported a finding.
\<close>

theorem get_errors_non_dict_witness:
  "\<not> is_dict (script (example_installer\<lparr>script := PNone, runner := PStr ''libretro'', game_name := PStr ''''\<rparr>))
   \<and> get_errors (example_installer\<lparr>script := PNone, runner := PStr ''libretro'', game_name := PStr ''''\<rparr>)
       = Inr [''Script must be a dictionary'']"
  using get_errors_non_dict [of "example_installer\<lparr>script := PNone, runner := PStr ''libretro'', game_name := PStr ''''\<rparr>"]
  by simp

section \<open>Service binding\<close>

text \<open>
  Claim C8. In \<open>get_appid\<close>, when the installer declares \<open>is_dlc\<close> (truthy), the
  result is its \<open>dlcid\<close>, whatever identifier the caller supplied. When it does not, a
  truthy caller-supplied identifier is the result. When neither applies, the result comes
  from the provider's own fields and then the generic \<open>service_id\<close>, in that order:
  \<open>steamid\<close> for Steam; the game section's \<open>gogid\<close>, then the installer's \<open>gogid\<close>
  for GOG; the game section's \<open>humbleid\<close>, then the installer's \<open>humblestoreid\<close> for
  Humble Bundle; and \<open>None\<close> without a provider.
\<close>

theorem get_appid_precedence:
  "(truthy (dict_get inst (PStr ''is_dlc'') PNone)
      \<longrightarrow> get_appid self inst initial = Inr (dict_get inst (PStr ''dlcid'') PNone))
   \<and> (\<not> truthy (dict_get inst (PStr ''is_dlc'') PNone) \<and> truthy initial
      \<longrightarrow> get_appid self inst initial = Inr initial)
   \<and> (\<not> truthy (dict_get inst (PStr ''is_dlc'') PNone) \<and> \<not> truthy initial \<and> service self = None
      \<longrightarrow> get_appid self inst initial = Inr PNone)
   \<and> (\<not> truthy (dict_get inst (PStr ''is_dlc'') PNone) \<and> \<not> truthy initial
        \<and> service self = Some svc \<and> svc_id svc = ''steam''
      \<longrightarrow> get_appid self inst initial
          = Inr (py_or (dict_get inst (PStr ''steamid'') PNone) (dict_get inst (PStr ''service_id'') PNone)))
   \<and> (\<not> truthy (dict_get inst (PStr ''is_dlc'') PNone) \<and> \<not> truthy initial
        \<and> service self = Some svc \<and> svc_id svc = ''gog''
        \<and> script self = PDict sc \<and> dict_get sc (PStr ''game'') (PDict []) = PDict game
      \<longrightarrow> get_appid self inst initial
          = Inr (py_or (dict_get game (PStr ''gogid'') PNone)
                  (py_or (dict_get inst (PStr ''gogid'') PNone) (dict_get inst (PStr ''service_id'') PNone))))
   \<and> (\<not> truthy (dict_get inst (PStr ''is_dlc'') PNone) \<and> \<not> truthy initial
        \<and> service self = Some svc \<and> svc_id svc = ''humblebundle''
        \<and> script self = PDict sc \<and> dict_get sc (PStr ''game'') (PDict []) = PDict game
      \<longrightarrow> get_appid self inst initial
          = Inr (py_or (dict_get game (PStr ''humbleid'') PNone)
                  (py_or (dict_get inst (PStr ''humblestoreid'') PNone) (dict_get inst (PStr ''service_id'') PNone))))"
  by (simp add: get_appid_def)

text \<open>The theorem at a DLC installer for which the caller supplied an identifier too.\<close>

theorem get_appid_precedence_witness:
  "truthy (dict_get [(PStr ''is_dlc'', PBool True), (PStr ''dlcid'', PStr ''dlc-1''), (PStr ''gogid'', PStr ''g-2'')]
            (PStr ''is_dlc'') PNone)
   \<and> get_appid (example_installer\<lparr>service := Some example_service\<rparr>)
        [(PStr ''is_dlc'', PBool True), (PStr ''dlcid'', PStr ''dlc-1''), (PStr ''gogid'', PStr ''g-2'')]
        (PStr ''caller-id'') = Inr (PStr ''dlc-1'')"
  using get_appid_precedence [of
      "[(PStr ''is_dlc'', PBool True), (PStr ''dlcid'', PStr ''dlc-1''), (PStr ''gogid'', PStr ''g-2'')]"
      "example_installer\<lparr>service := Some example_service\<rparr>" "PStr ''caller-id''"]
  by (simp add: dict_get_def)

section \<open>Configuration composition\<close>

text \<open>The normalization of one value, and the loop over the keys of a dictionary.\<close>

lemma normalize_bool_true: "lower (py_str v) = ''true'' \<Longrightarrow> normalize_bool v = PBool True"
  by (simp add: normalize_bool_def py_str_def lower_def lower_char_def)

lemma normalize_bool_false: "lower (py_str v) = ''false'' \<Longrightarrow> normalize_bool v = PBool False"
  by (simp add: normalize_bool_def)

lemma normalize_bool_PBool: "normalize_bool (PBool b) = PBool b"
  by (cases b) (simp_all add: normalize_bool_def py_str_def lower_def lower_char_def)

lemma substitute_value_total:
  "key \<noteq> ''launch_configs'' \<Longrightarrow> \<exists>v'. substitute_value interp key v = Inr v'"
  by (cases "normalize_bool v") (simp_all add: substitute_value_def)

lemma substitute_keys_lookup:
  "substitute_keys interp (PDict cfg) keys = Inr out \<Longrightarrow> distinct keys \<Longrightarrow> PStr k \<in> set keys
   \<Longrightarrow> map_of cfg (PStr k) = Some v
   \<Longrightarrow> \<exists>v'. substitute_value interp k v = Inr v' \<and> map_of out (PStr k) = Some v'"
proof (induction keys arbitrary: out)
  case Nil
  then show ?case by simp
next
  case (Cons key keys)
  then show ?case
    by (auto split: pyval.splits sum.splits option.splits if_splits)
qed

lemma substitute_keys_total:
  "\<forall>key\<in>set keys. is_str key \<and> key \<noteq> PStr ''launch_configs'' \<and> key \<in> set (map fst cfg)
   \<Longrightarrow> \<exists>out. substitute_keys interp (PDict cfg) keys = Inr out"
proof (induction keys)
  case Nil
  then show ?case by simp
next
  case (Cons key keys)
  from Cons.prems obtain k where k: "key = PStr k" "k \<noteq> ''launch_configs''"
    by (cases key) auto
  from Cons.prems have "key \<in> set (map fst cfg)" by simp
  then obtain v where v: "map_of cfg key = Some v"
    by (metis map_of_eq_None_iff not_Some_eq set_map)
  obtain v' where v': "substitute_value interp k v = Inr v'"
    using substitute_value_total [OF k(2)] by blast
  from Cons obtain out where "substitute_keys interp (PDict cfg) keys = Inr out" by auto
  with k v v' show ?case by simp
qed

text \<open>
  Claim C7, as amended. In \<open>_substitute_config\<close>, for every entry of a configuration
  dictionary whose key is not \<open>launch_configs\<close>: a value whose string form is \<open>true\<close>
  or \<open>false\<close> in any case composes to the boolean \<open>True\<close> or \<open>False\<close>, not to a
  string, whatever the variable substitution is (the normalization comes first, and the
  substitution is not applied to the boolean); a value that is a boolean already composes
  to itself. What the composed dictionary holds under the key is what the loop body
  yields for the value, whenever the composition returns; and it does return when every
  key is a string other than \<open>launch_configs\<close>.
\<close>

theorem substitute_config_booleans:
  assumes "(PStr k, v) \<in> set cfg" and "distinct (map fst cfg)" and "k \<noteq> ''launch_configs''"
  shows "(lower (py_str v) = ''true'' \<longrightarrow> substitute_value interp k v = Inr (PBool True))
    \<and> (lower (py_str v) = ''false'' \<longrightarrow> substitute_value interp k v = Inr (PBool False))
    \<and> (v = PBool b \<longrightarrow> substitute_value interp k v = Inr (PBool b))
    \<and> (substitute_config interp (PDict cfg) = Inr out
         \<longrightarrow> py_getitem out (PStr k) = substitute_value interp k v)
    \<and> ((\<forall>key\<in>set (map fst cfg). is_str key \<and> key \<noteq> PStr ''launch_configs'')
         \<longrightarrow> (\<exists>out'. substitute_config interp (PDict cfg) = Inr out'))"
proof -
  have t: "lower (py_str v) = ''true'' \<Longrightarrow> substitute_value interp k v = Inr (PBool True)"
    using assms(3) by (simp add: substitute_value_def normalize_bool_true)
  have f: "lower (py_str v) = ''false'' \<Longrightarrow> substitute_value interp k v = Inr (PBool False)"
    using assms(3) by (simp add: substitute_value_def normalize_bool_false)
  have b: "v = PBool b \<Longrightarrow> substitute_value interp k v = Inr (PBool b)"
    using assms(3) by (simp add: substitute_value_def normalize_bool_PBool)
  have m: "map_of cfg (PStr k) = Some v"
    using assms(1,2) by simp
  have g: "py_getitem out (PStr k) = substitute_value interp k v"
    if "substitute_config interp (PDict cfg) = Inr out"
  proof -
    from that obtain config where c: "substitute_keys interp (PDict cfg) (map fst cfg) = Inr config"
      and o: "out = PDict config"
      by (auto simp: substitute_config_def split: sum.splits)
    have "PStr k \<in> set (map fst cfg)" using assms(1) by force
    from substitute_keys_lookup [OF c assms(2) this m] o show ?thesis by auto
  qed
  have tot: "\<exists>out'. substitute_config interp (PDict cfg) = Inr out'"
    if "\<forall>key\<in>set (map fst cfg). is_str key \<and> key \<noteq> PStr ''launch_configs''"
  proof -
    from that have "\<forall>key\<in>set (map fst cfg). is_str key \<and> key \<noteq> PStr ''launch_configs'' \<and> key \<in> set (map fst cfg)"
      by blast
    from substitute_keys_total [OF this, of interp]
    obtain config where "substitute_keys interp (PDict cfg) (map fst cfg) = Inr config" by blast
    then show ?thesis
      by (simp add: substitute_config_def)
  qed
  show ?thesis using t f b g tot by blast
qed

text \<open>
  The theorem at a configuration with \<open>fullscreen: "TRUE"\<close>, under a substitution that
  would replace every value it is applied to.
\<close>

theorem substitute_config_booleans_witness:
  "lower (py_str (PStr ''TRUE'')) = ''true''
   \<and> substitute_config (example_interpreter\<lparr>substitute := (\<lambda>v. PStr ''substituted'')\<rparr>)
        (PDict [(PStr ''fullscreen'', PStr ''TRUE''), (PStr ''exe'', PStr ''$GAMEDIR/game'')])
      = Inr (PDict [(PStr ''fullscreen'', PBool True), (PStr ''exe'', PStr ''substituted'')])"
  using substitute_config_booleans [of "''fullscreen''" "PStr ''TRUE''"
      "[(PStr ''fullscreen'', PStr ''TRUE''), (PStr ''exe'', PStr ''$GAMEDIR/game'')]"
      "example_interpreter\<lparr>substitute := (\<lambda>v. PStr ''substituted'')\<rparr>"]
  by (simp add: substitute_config_def substitute_value_def normalize_bool_def py_str_def lower_def lower_char_def)

text \<open>
  Claim C7 as written fails under the key \<open>launch_configs\<close>: the value \<open>"true"\<close> is
  normalized to \<open>True\<close> and then iterated over, which raises; no boolean is composed.
\<close>

theorem substitute_config_launch_configs_counterexample:
  "lower (py_str (PStr ''true'')) = ''true''
   \<and> substitute_config example_interpreter (PDict [(PStr ''launch_configs'', PStr ''true'')]) = Inl TypeError"
  by (simp add: substitute_config_def substitute_value_def normalize_bool_def py_str_def lower_def lower_char_def)

text \<open>
  What \<open>get_game_launcher_config\<close> computes. For a single string: the installed
  file's path when the value names an installed file, else the path joined to the install
  target when that path exists, else the value itself. For a list: element by element,
  the installed file's path or the element itself.
\<close>

lemma launcher_values_lookup:
  "\<forall>x\<in>set xs. py_hashable x \<Longrightarrow>
   launcher_values gfiles xs
     = Inr (map (\<lambda>x. if x \<in> set (map fst gfiles) then dict_get gfiles x PNone else x) xs)"
  by (induction xs) simp_all

lemma get_game_launcher_config_scalar:
  assumes "get_game_launcher env (script self) = (launcher, PStr v)" and "v \<noteq> []"
    and "target_path (interpreter self) = PStr t"
  shows "get_game_launcher_config env self gfiles
     = Inr (launcher,
            if PStr v \<in> set (map fst gfiles) then dict_get gfiles (PStr v) PNone
            else if t \<noteq> [] \<and> path_exists env (posix_join t v) then PStr (posix_join t v)
            else PStr v)"
  using assms by (simp add: get_game_launcher_config_def)

lemma get_game_launcher_config_list:
  assumes "get_game_launcher env (script self) = (launcher, PList xs)" and "\<forall>x\<in>set xs. py_hashable x"
  shows "get_game_launcher_config env self gfiles
     = Inr (launcher, PList (map (\<lambda>x. if x \<in> set (map fst gfiles) then dict_get gfiles x PNone else x) xs))"
  using assms by (simp add: get_game_launcher_config_def launcher_values_lookup)

text \<open>
  Claim C6 at a failing input. The install target \<open>/install\<close> holds \<open>main.exe\<close> and
  no installed file is named \<open>main.exe\<close>. For the launcher value \<open>"main.exe"\<close> the
  joined path \<open>/install/main.exe\<close> is used; for the list \<open>["main.exe"]\<close> the element
  stays as it is: the list branch has the installed-files lookup but not the check of
  the path relative to the install target.
\<close>

theorem get_game_launcher_config_list_keeps_raw:
  "get_game_launcher_config
      (example_env\<lparr>get_game_launcher := (\<lambda>s. (PStr ''exe'', PList [PStr ''main.exe'']))\<rparr>)
      example_installer [] = Inr (PStr ''exe'', PList [PStr ''main.exe''])
   \<and> get_game_launcher_config
      (example_env\<lparr>get_game_launcher := (\<lambda>s. (PStr ''exe'', PStr ''main.exe''))\<rparr>)
      example_installer [] = Inr (PStr ''exe'', PStr ''/install/main.exe'')
   \<and> path_exists example_env ''/install/main.exe''
   \<and> target_path (interpreter example_installer) = PStr ''/install''"
  by (simp add: get_game_launcher_config_def example_env_def example_installer_def example_interpreter_def
      posix_join_def)

section \<open>File acquisition\<close>

text \<open>
  Frame properties of the steps of \<open>prepare_game_files\<close>: every step extends the heap
  and writes only to addresses it has allocated itself.
\<close>

lemma copy_files_frame:
  "copy_files fid as w = (cs, w') \<Longrightarrow>
     prefix (heap w) (heap w') \<and> (\<forall>c\<in>set cs. length (heap w) \<le> c \<and> c < length (heap w'))
     \<and> calls w' = calls w"
proof (induction as arbitrary: w cs w')
  case Nil
  then show ?case by simp
next
  case (Cons a as)
  show ?case
  proof (cases "Some (file_id (heap w ! a)) \<noteq> fid")
    case True
    obtain cs2 w2 where r: "copy_files fid as (w\<lparr>heap := heap w @ [heap w ! a]\<rparr>) = (cs2, w2)"
      by (cases "copy_files fid as (w\<lparr>heap := heap w @ [heap w ! a]\<rparr>)") auto
    from Cons.prems True r have eq: "cs = length (heap w) # cs2" "w' = w2"
      by (auto simp: alloc_def)
    from Cons.IH [OF r] have ih: "prefix (heap w @ [heap w ! a]) (heap w2)"
      "\<forall>c\<in>set cs2. Suc (length (heap w)) \<le> c \<and> c < length (heap w2)" "calls w2 = calls w"
      by auto
    from ih(1) have p: "prefix (heap w) (heap w2)" by (metis append_prefixD)
    from ih(1) have "length (heap w) < length (heap w2)"
      by (metis length_append_singleton less_eq_Suc_le prefix_length_le)
    with ih p eq show ?thesis by auto
  next
    case False
    with Cons show ?thesis by auto
  qed
qed

lemma substitute_urls_frame:
  "\<forall>c\<in>set cs. n \<le> c \<Longrightarrow>
     length (heap (substitute_urls env interp cs w)) = length (heap w)
     \<and> take n (heap (substitute_urls env interp cs w)) = take n (heap w)"
proof (induction cs arbitrary: w)
  case Nil
  then show ?case by simp
next
  case (Cons c cs)
  then show ?case by (simp add: Let_def set_url_def)
qed

lemma alloc_all_frame:
  "alloc_all fs w = (as, w') \<Longrightarrow> prefix (heap w) (heap w')"
proof (induction fs arbitrary: w as w')
  case Nil
  then show ?case by simp
next
  case (Cons f fs)
  then show ?case
    by (auto simp: alloc_def split: prod.splits dest!: Cons.IH dest: append_prefixD)
qed

lemma provider_files_frame:
  "provider_files self svc fid pv w = (r, self', w') \<Longrightarrow>
     script_files self' = script_files self \<and> prefix (heap w) (heap w')"
  by (auto simp: provider_files_def Let_def alloc_def split: if_splits prod.splits option.splits list.splits
      dest!: alloc_all_frame dest: append_prefixD)


lemma gather_game_files_frame:
  assumes "gather_game_files env self pv w = (r, self', w')"
  shows "script_files self' = script_files self \<and> prefix (heap w) (heap w')"
proof -
  define fid where "fid = (if service self \<noteq> None then get_user_provided_file self w else None)"
  obtain copies w1 where c: "copy_files fid (script_files self) w = (copies, w1)"
    by (cases "copy_files fid (script_files self) w") auto
  define w2 where "w2 = substitute_urls env (interpreter self) copies w1"
  from copy_files_frame [OF c] have p1: "prefix (heap w) (heap w1)"
    and fresh: "\<forall>c\<in>set copies. length (heap w) \<le> c" by auto
  from substitute_urls_frame [OF fresh, of env "interpreter self" w1]
  have "take (length (heap w)) (heap w2) = take (length (heap w)) (heap w1)"
    by (simp add: w2_def)
  with p1 have p2: "prefix (heap w) (heap w2)"
    by (metis append_eq_conv_conj prefixE prefixI append_take_drop_id)
  have "(r, self', w') = (Inr (), self\<lparr>files := copies\<rparr>, w2)
      \<or> (\<exists>svc f. provider_files (self\<lparr>files := copies\<rparr>) svc f pv w2 = (r, self', w'))"
    using assms c unfolding gather_game_files_def fid_def [symmetric]
    by (auto simp: Let_def w2_def split: option.splits if_splits)
  then show ?thesis
  proof
    assume "(r, self', w') = (Inr (), self\<lparr>files := copies\<rparr>, w2)"
    with p2 show ?thesis by simp
  next
    assume "\<exists>svc f. provider_files (self\<lparr>files := copies\<rparr>) svc f pv w2 = (r, self', w')"
    then obtain svc f where "provider_files (self\<lparr>files := copies\<rparr>) svc f pv w2 = (r, self', w')"
      by blast
    from provider_files_frame [OF this] p2 show ?thesis
      by (auto intro: prefix_order.trans)
  qed
qed

text \<open>
  Claim C9. \<open>prepare_game_files\<close> never changes the declared file list: whatever the
  outcome of the call, \<open>script_files\<close> is the same list of references, and every
  \<open>InstallerFile\<close> it refers to holds what it held before (the heap the call started
  from is a prefix of the heap it leaves). The URL substitution and the ModDB rewrite are
  applied to the copies only.
\<close>

theorem prepare_game_files_keeps_declared_files:
  assumes "prepare_game_files env self patch_version w = (r, self', w')"
    and "\<forall>a\<in>set (script_files self). a < length (heap w)"
  shows "script_files self' = script_files self
    \<and> map (\<lambda>a. heap w' ! a) (script_files self') = map (\<lambda>a. heap w ! a) (script_files self)
    \<and> prefix (heap w) (heap w')"
proof -
  have fr: "script_files self' = script_files self \<and> prefix (heap w) (heap w')"
  proof (cases "\<exists>w0. heap w0 = heap w \<and> gather_game_files env self patch_version w0 = (r, self', w')")
    case True
    then obtain w0 where "heap w0 = heap w" "gather_game_files env self patch_version w0 = (r, self', w')"
      by blast
    with gather_game_files_frame [of env self patch_version w0 r self' w'] show ?thesis by simp
  next
    case False
    with assms(1) have "self' = self \<and> heap w' = heap w"
      unfolding prepare_game_files_def
      by (auto simp: Let_def split: if_splits option.splits)
    then show ?thesis by simp
  qed
  then obtain zs where zs: "heap w' = heap w @ zs" by (auto elim: prefixE)
  have "heap w' ! a = heap w ! a" if "a \<in> set (script_files self)" for a
    using that assms(2) zs by (simp add: nth_append)
  with fr show ?thesis by simp
qed

text \<open>The rewritten copies, and the fall-back to manual entry.\<close>

lemma copy_files_exact:
  "\<forall>a\<in>set as. a < length (heap w) \<Longrightarrow> copy_files fid as w = (cs, w') \<Longrightarrow>
     w' = w\<lparr>heap := heap w @ map (\<lambda>a. heap w ! a) (filter (\<lambda>a. Some (file_id (heap w ! a)) \<noteq> fid) as)\<rparr>
     \<and> cs = [length (heap w) ..< length (heap w')]"
proof (induction as arbitrary: w cs w')
  case Nil
  then show ?case by simp
next
  case (Cons a as)
  show ?case
  proof (cases "Some (file_id (heap w ! a)) \<noteq> fid")
    case True
    let ?w1 = "w\<lparr>heap := heap w @ [heap w ! a]\<rparr>"
    obtain cs2 w2 where r: "copy_files fid as ?w1 = (cs2, w2)"
      by (cases "copy_files fid as ?w1") auto
    from Cons.prems True r have eq: "cs = length (heap w) # cs2" "w' = w2"
      by (auto simp: alloc_def)
    have v: "\<forall>b\<in>set as. b < length (heap ?w1)" using Cons.prems(1) by auto
    have same: "(heap w @ [heap w ! a]) ! b = heap w ! b" if "b \<in> set as" for b
      using that Cons.prems(1) by (simp add: nth_append)
    have f: "filter (\<lambda>b. Some (file_id (heap ?w1 ! b)) \<noteq> fid) as
           = filter (\<lambda>b. Some (file_id (heap w ! b)) \<noteq> fid) as"
      by (rule filter_cong) (auto simp: same)
    have m: "map (\<lambda>b. heap ?w1 ! b) (filter (\<lambda>b. Some (file_id (heap w ! b)) \<noteq> fid) as)
           = map (\<lambda>b. heap w ! b) (filter (\<lambda>b. Some (file_id (heap w ! b)) \<noteq> fid) as)"
      by (rule map_cong) (auto simp: same)
    from Cons.IH [OF v r] f m
    have ih: "w2 = w\<lparr>heap := heap w @ [heap w ! a] @ map (\<lambda>b. heap w ! b) (filter (\<lambda>b. Some (file_id (heap w ! b)) \<noteq> fid) as)\<rparr>"
      "cs2 = [Suc (length (heap w)) ..< length (heap w2)]"
      by auto
    from ih(1) have "length (heap w) < length (heap w2)" by simp
    then have "[length (heap w) ..< length (heap w2)] = length (heap w) # [Suc (length (heap w)) ..< length (heap w2)]"
      by (simp add: upt_conv_Cons)
    with ih eq True show ?thesis by simp
  next
    case False
    with Cons show ?thesis by auto
  qed
qed

lemma substitute_urls_step:
  "c < length (heap w) \<Longrightarrow>
   heap (let w1 = set_url c (substitute_url interp (url (heap w ! c))) w;
             u = url (heap w1 ! c)
         in if is_moddb_url env u
            then set_url c (get_moddb_download_url env u) (w1\<lparr>calls := calls w1 @ [ModdbDownloadUrl u]\<rparr>)
            else w1)
     = (heap w)[c := rewrite_url env interp (heap w ! c)]"
  by (simp add: set_url_def rewrite_url_def Let_def)

lemma substitute_urls_exact:
  "distinct cs \<Longrightarrow> \<forall>c\<in>set cs. c < length (heap w) \<Longrightarrow> i < length (heap w) \<Longrightarrow>
     heap (substitute_urls env interp cs w) ! i
       = (if i \<in> set cs then rewrite_url env interp (heap w ! i) else heap w ! i)"
proof (induction cs arbitrary: w)
  case Nil
  then show ?case by simp
next
  case (Cons c cs)
  let ?w2 = "let w1 = set_url c (substitute_url interp (url (heap w ! c))) w;
                 u = url (heap w1 ! c)
             in if is_moddb_url env u
                then set_url c (get_moddb_download_url env u) (w1\<lparr>calls := calls w1 @ [ModdbDownloadUrl u]\<rparr>)
                else w1"
  have h: "heap ?w2 = (heap w)[c := rewrite_url env interp (heap w ! c)]"
    using Cons.prems by (intro substitute_urls_step) simp
  have s: "substitute_urls env interp (c # cs) w = substitute_urls env interp cs ?w2"
    by (simp add: Let_def)
  have "heap (substitute_urls env interp cs ?w2) ! i
       = (if i \<in> set cs then rewrite_url env interp (heap ?w2 ! i) else heap ?w2 ! i)"
    using Cons.prems by (intro Cons.IH) (simp_all add: h)
  with Cons.prems show ?case unfolding s h by (auto simp: nth_list_update)
qed

lemma provider_files_fallback:
  assumes "(if truthy pv then get_patch_files svc fid
            else get_installer_files svc fid (extras (interpreter self))) \<in> {None, Some []}"
    and "provider_files self svc fid pv w = (r, self', w')"
  shows "r = Inr () \<and> files self' = length (heap w) # files self
    \<and> heap w' = heap w @ [\<lparr>file_game_slug = game_slug self, file_id = fid,
                            url = ''N/A: Provider installer file'', filename = []\<rparr>]
    \<and> calls w' = calls w @ [if truthy pv then GetPatchFiles fid
                              else GetInstallerFiles fid (extras (interpreter self))]"
  using assms
  by (auto simp: provider_files_def Let_def alloc_def split: if_splits)

lemma working_copies:
  assumes valid: "\<forall>a\<in>set as. a < length (heap w)"
    and c: "copy_files fid as w = (copies, w1)"
  shows "distinct copies \<and> (\<forall>c\<in>set copies. c < length (heap w1))
    \<and> map (\<lambda>c. heap (substitute_urls env interp copies w1) ! c) copies
        = map (rewrite_url env interp)
            (map (\<lambda>a. heap w ! a) (filter (\<lambda>a. Some (file_id (heap w ! a)) \<noteq> fid) as))"
proof -
  let ?kept = "map (\<lambda>a. heap w ! a) (filter (\<lambda>a. Some (file_id (heap w ! a)) \<noteq> fid) as)"
  let ?n = "length (heap w)"
  from copy_files_exact [OF valid c]
  have h1: "heap w1 = heap w @ ?kept" and cs: "copies = [?n ..< length (heap w1)]" by auto
  have d: "distinct copies" and b: "\<forall>c\<in>set copies. c < length (heap w1)"
    using cs by auto
  have len: "length (heap w1) = ?n + length ?kept" using h1 by simp
  have "map (\<lambda>c. heap (substitute_urls env interp copies w1) ! c) copies = map (rewrite_url env interp) ?kept"
  proof (rule nth_equalityI)
    show "length (map (\<lambda>c. heap (substitute_urls env interp copies w1) ! c) copies)
        = length (map (rewrite_url env interp) ?kept)"
      using cs len by simp
  next
    fix i
    assume "i < length (map (\<lambda>c. heap (substitute_urls env interp copies w1) ! c) copies)"
    then have i: "i < length ?kept" using cs len by simp
    then have ci: "copies ! i = ?n + i" using cs len by simp
    have mem: "?n + i \<in> set copies" using cs len i by simp
    have lt: "?n + i < length (heap w1)" using len i by simp
    have "heap (substitute_urls env interp copies w1) ! (?n + i)
        = rewrite_url env interp (heap w1 ! (?n + i))"
      using substitute_urls_exact [OF d b lt, of env interp] mem by simp
    also have "heap w1 ! (?n + i) = ?kept ! i"
      using h1 by (simp add: nth_append)
    finally show "map (\<lambda>c. heap (substitute_urls env interp copies w1) ! c) copies ! i
        = map (rewrite_url env interp) ?kept ! i"
      using i ci cs len by simp
  qed
  with d b show ?thesis by blast
qed

text \<open>
  The fall-back for the id that \<open>get_user_provided_file\<close> has picked, and the file that
  it picks: the first declared file whose URL starts with \<open>N/A\<close>.
\<close>

lemma manual_fallback_of_picked_id:
  assumes valid: "\<forall>a\<in>set (script_files self). a < length (heap w)"
    and svc: "service self = Some svc"
    and auth: "\<not> online svc \<or> is_connected svc"
    and fid: "get_user_provided_file self w = Some fid"
    and ne: "fid \<noteq> []"
    and fail: "(if truthy patch_version then get_patch_files svc fid
                else get_installer_files svc fid (extras (interpreter self))) \<in> {None, Some []}"
    and res: "prepare_game_files env self patch_version w = (r, self', w')"
  shows "r = Inr ()
    \<and> last (calls w') = (if truthy patch_version then GetPatchFiles fid
                         else GetInstallerFiles fid (extras (interpreter self)))
    \<and> (\<exists>a rest. files self' = a # rest
      \<and> file_id (heap w' ! a) = fid \<and> filename (heap w' ! a) = []
      \<and> prefix ''N/A'' (url (heap w' ! a))
      \<and> map (\<lambda>c. heap w' ! c) rest
          = map (rewrite_url env (interpreter self))
              (filter (\<lambda>f. file_id f \<noteq> fid) (map (\<lambda>a. heap w ! a) (script_files self))))"
proof -
  have nonempty: "script_files self \<noteq> []"
    using fid by (auto simp: get_user_provided_file_def)
  obtain w0 where w0: "heap w0 = heap w" and g: "gather_game_files env self patch_version w0 = (r, self', w')"
  proof (cases "online svc")
    case True
    with res nonempty svc auth
    have "gather_game_files env self patch_version (w\<lparr>calls := calls w @ [IsConnected]\<rparr>) = (r, self', w')"
      by (simp add: prepare_game_files_def)
    then show ?thesis using that [of "w\<lparr>calls := calls w @ [IsConnected]\<rparr>"] by simp
  next
    case False
    with res nonempty svc have "gather_game_files env self patch_version w = (r, self', w')"
      by (simp add: prepare_game_files_def)
    then show ?thesis using that [of w] by simp
  qed
  have fid0: "get_user_provided_file self w0 = Some fid"
    using fid w0 by (simp add: get_user_provided_file_def cong: option.case_cong)
  have valid0: "\<forall>a\<in>set (script_files self). a < length (heap w0)"
    using valid w0 by simp
  obtain copies w1 where c: "copy_files (Some fid) (script_files self) w0 = (copies, w1)"
    by (cases "copy_files (Some fid) (script_files self) w0") auto
  let ?w2 = "substitute_urls env (interpreter self) copies w1"
  let ?self1 = "self\<lparr>files := copies\<rparr>"
  from g c svc fid0 ne
  have p: "provider_files ?self1 svc fid patch_version ?w2 = (r, self', w')"
    by (simp add: gather_game_files_def Let_def)
  have fail1: "(if truthy patch_version then get_patch_files svc fid
                else get_installer_files svc fid (extras (interpreter ?self1))) \<in> {None, Some []}"
    using fail by (auto split: if_splits)
  from provider_files_fallback [OF fail1 p]
  have r: "r = Inr ()" and fs: "files self' = length (heap ?w2) # copies"
    and hp: "heap w' = heap ?w2 @ [\<lparr>file_game_slug = game_slug ?self1, file_id = fid,
                            url = ''N/A: Provider installer file'', filename = []\<rparr>]"
    and cl: "calls w' = calls ?w2 @ [if truthy patch_version then GetPatchFiles fid
                                    else GetInstallerFiles fid (extras (interpreter ?self1))]"
    by auto
  from cl have lc: "last (calls w') = (if truthy patch_version then GetPatchFiles fid
                         else GetInstallerFiles fid (extras (interpreter self)))"
    by simp
  from working_copies [OF valid0 c, of env "interpreter self"]
  have cb: "\<forall>c\<in>set copies. c < length (heap w1)"
    and wc: "map (\<lambda>c. heap ?w2 ! c) copies
        = map (rewrite_url env (interpreter self))
            (map (\<lambda>a. heap w0 ! a) (filter (\<lambda>a. Some (file_id (heap w0 ! a)) \<noteq> Some fid) (script_files self)))"
    by auto
  have l2: "length (heap ?w2) = length (heap w1)"
    using substitute_urls_frame [of copies 0 env "interpreter self" w1] by simp
  have "map (\<lambda>c. heap w' ! c) copies = map (\<lambda>c. heap ?w2 ! c) copies"
    by (rule map_cong) (use cb l2 hp in \<open>auto simp: nth_append\<close>)
  also note wc
  also have "map (\<lambda>a. heap w0 ! a) (filter (\<lambda>a. Some (file_id (heap w0 ! a)) \<noteq> Some fid) (script_files self))
      = filter (\<lambda>f. file_id f \<noteq> fid) (map (\<lambda>a. heap w ! a) (script_files self))"
    by (simp add: filter_map o_def w0)
  finally have rest: "map (\<lambda>c. heap w' ! c) copies
      = map (rewrite_url env (interpreter self))
          (filter (\<lambda>f. file_id f \<noteq> fid) (map (\<lambda>a. heap w ! a) (script_files self)))" .
  have first: "file_id (heap w' ! length (heap ?w2)) = fid \<and> filename (heap w' ! length (heap ?w2)) = []
      \<and> prefix ''N/A'' (url (heap w' ! length (heap ?w2)))"
    using hp by simp
  from r lc fs first rest show ?thesis by blast
qed

lemma get_user_provided_file_first:
  assumes "script_files self = before @ a # after"
    and "\<forall>b\<in>set before. \<not> prefix ''N/A'' (url (heap w ! b))"
    and "prefix ''N/A'' (url (heap w ! a))"
  shows "get_user_provided_file self w = Some (file_id (heap w ! a))"
proof -
  have "find P (xs @ a # ys) = Some a" if "\<forall>b\<in>set xs. \<not> P b" and "P a"
    for P :: "nat \<Rightarrow> bool" and xs ys
    using that by (induction xs) auto
  from this [of before "\<lambda>c. prefix ''N/A'' (url (heap w ! c))" after] assms
  show ?thesis by (simp add: get_user_provided_file_def)
qed

text \<open>
  Claim C4, as amended. A provider is bound (and the authentication test passes); the
  declared file \<open>a\<close> is the first declared file whose URL starts with \<open>N/A\<close>, and its
  id is not the empty string; the provider's request for that id (for the patch files
  when a patch version is given, for the installer files otherwise) returns nothing or
  the empty list. Then \<open>prepare_game_files\<close> returns normally, the last call it has made
  is that request, and the working list \<open>files\<close> starts with a file that has the id of
  \<open>a\<close>, an empty filename and a URL that starts with \<open>N/A\<close>; after it come the working
  copies, which are the declared files with another id, in order, with their URLs
  rewritten.
\<close>

theorem prepare_game_files_manual_fallback:
  assumes valid: "\<forall>b\<in>set (script_files self). b < length (heap w)"
    and svc: "service self = Some svc"
    and auth: "\<not> online svc \<or> is_connected svc"
    and declared: "script_files self = before @ a # after"
    and first: "\<forall>b\<in>set before. \<not> prefix ''N/A'' (url (heap w ! b))"
    and sentinel: "prefix ''N/A'' (url (heap w ! a))"
    and ne: "file_id (heap w ! a) \<noteq> []"
    and fail: "(if truthy patch_version then get_patch_files svc (file_id (heap w ! a))
                else get_installer_files svc (file_id (heap w ! a)) (extras (interpreter self)))
               \<in> {None, Some []}"
    and res: "prepare_game_files env self patch_version w = (r, self', w')"
  shows "r = Inr ()
    \<and> last (calls w') = (if truthy patch_version then GetPatchFiles (file_id (heap w ! a))
                         else GetInstallerFiles (file_id (heap w ! a)) (extras (interpreter self)))
    \<and> (\<exists>p rest. files self' = p # rest
      \<and> file_id (heap w' ! p) = file_id (heap w ! a) \<and> filename (heap w' ! p) = []
      \<and> prefix ''N/A'' (url (heap w' ! p))
      \<and> map (\<lambda>c. heap w' ! c) rest
          = map (rewrite_url env (interpreter self))
              (filter (\<lambda>f. file_id f \<noteq> file_id (heap w ! a)) (map (\<lambda>b. heap w ! b) (script_files self))))"
proof -
  have picked: "get_user_provided_file self w = Some (file_id (heap w ! a))"
    using declared first sentinel by (rule get_user_provided_file_first)
  from manual_fallback_of_picked_id [OF valid svc auth picked ne fail res]
  show ?thesis by simp
qed

text \<open>The run of \<open>prepare_game_files\<close> on the example installer.\<close>

lemma example_run:
  "prepare_game_files example_env example_files_installer PNone example_world
     = (Inr (),
        example_files_installer\<lparr>files := [3, 2]\<rparr>,
        example_world\<lparr>heap := heap example_world @
            [\<lparr>file_game_slug = PStr ''foo'', file_id = ''patch'',
               url = ''/cache/patch.zip'', filename = ''patch.zip''\<rparr>,
             \<lparr>file_game_slug = PStr ''foo'', file_id = ''installer'',
               url = ''N/A: Provider installer file'', filename = []\<rparr>],
          calls := [IsConnected, GetInstallerFiles ''installer'' (PList [])],
          log := [''Getting files for installer'',
                  ''Unable to get files from service. Setting installer to manual.'']\<rparr>)"
  by (simp add: prepare_game_files_def gather_game_files_def provider_files_def get_user_provided_file_def
      alloc_def set_url_def Let_def example_defs)

lemma example_run_patch_first:
  "prepare_game_files example_env example_files_installer PNone example_world_patch_first
     = (Inr (),
        example_files_installer\<lparr>files := [3, 2]\<rparr>,
        example_world_patch_first\<lparr>heap := heap example_world_patch_first @
            [\<lparr>file_game_slug = PStr ''foo'', file_id = ''patch'',
               url = ''/cache/patch.zip'', filename = ''patch.zip''\<rparr>,
             \<lparr>file_game_slug = PStr ''foo'', file_id = ''installer'',
               url = ''N/A: Provider installer file'', filename = []\<rparr>],
          calls := [IsConnected, GetInstallerFiles ''installer'' (PList [])],
          log := [''Getting files for installer'',
                  ''Unable to get files from service. Setting installer to manual.'']\<rparr>)"
  by (simp add: prepare_game_files_def gather_game_files_def provider_files_def get_user_provided_file_def
      alloc_def set_url_def Let_def example_defs example_world_patch_first_def)

text \<open>
  The theorem of claim C4 on that run: the file to be supplied by the user is the second
  declared file, and the first declared file has an ordinary URL.
\<close>

theorem prepare_game_files_manual_fallback_witness:
  "script_files example_files_installer = [0] @ 1 # []
   \<and> \<not> prefix ''N/A'' (url (heap example_world_patch_first ! 0))
   \<and> prefix ''N/A'' (url (heap example_world_patch_first ! 1))
   \<and> file_id (heap example_world_patch_first ! 1) = ''installer''
   \<and> fst (prepare_game_files example_env example_files_installer PNone example_world_patch_first) = Inr ()
   \<and> last (calls (snd (snd (prepare_game_files example_env example_files_installer PNone
                                example_world_patch_first))))
      = GetInstallerFiles ''installer'' (PList [])
   \<and> map (\<lambda>a. heap (snd (snd (prepare_game_files example_env example_files_installer PNone
                                   example_world_patch_first))) ! a)
        (files (fst (snd (prepare_game_files example_env example_files_installer PNone
                            example_world_patch_first))))
      = [\<lparr>file_game_slug = PStr ''foo'', file_id = ''installer'',
           url = ''N/A: Provider installer file'', filename = []\<rparr>,
         \<lparr>file_game_slug = PStr ''foo'', file_id = ''patch'',
           url = ''/cache/patch.zip'', filename = ''patch.zip''\<rparr>]"
proof -
  have v: "\<forall>b\<in>set (script_files example_files_installer). b < length (heap example_world_patch_first)"
    by (simp add: example_defs example_world_patch_first_def)
  have s: "service example_files_installer = Some example_service"
    by (simp add: example_defs)
  have a: "\<not> online example_service \<or> is_connected example_service"
    by (simp add: example_defs)
  have d: "script_files example_files_installer = [0] @ 1 # []"
    by (simp add: example_defs)
  have f: "\<forall>b\<in>set [0]. \<not> prefix ''N/A'' (url (heap example_world_patch_first ! b))"
    by (simp add: example_world_patch_first_def)
  have p: "prefix ''N/A'' (url (heap example_world_patch_first ! 1))"
    by (simp add: example_world_patch_first_def)
  have i: "file_id (heap example_world_patch_first ! 1) = ''installer''"
    by (simp add: example_world_patch_first_def)
  have n: "file_id (heap example_world_patch_first ! 1) \<noteq> []"
    by (simp add: example_world_patch_first_def)
  have fl: "(if truthy PNone
             then get_patch_files example_service (file_id (heap example_world_patch_first ! 1))
             else get_installer_files example_service (file_id (heap example_world_patch_first ! 1))
                    (extras (interpreter example_files_installer)))
            \<in> {None, Some []}"
    by (simp add: example_defs)
  note r = example_run_patch_first
  from prepare_game_files_manual_fallback [OF v s a d f p n fl r] d f p i show ?thesis
    unfolding r by (simp add: example_defs example_world_patch_first_def)
qed

text \<open>
  Claim C4 as written fails in two ways. When the declared file with the \<open>N/A\<close> URL has
  the empty string as its id, the test \<open>if installer_file_id and self.service\<close> fails:
  the file is held aside, no request is made and no placeholder is put back, so the
  working list holds the copy of the other file only. And when two declared files have an
  \<open>N/A\<close> URL, only the first is held aside: the list starts with a placeholder for the
  first one, not for the second, whose copy stays in the list.
\<close>

theorem prepare_game_files_manual_fallback_counterexample:
  "service example_files_installer = Some example_service
   \<and> get_installer_files example_service [] (extras (interpreter example_files_installer)) = None
   \<and> prefix ''N/A'' (url (heap example_world_empty_id ! 0))
   \<and> file_id (heap example_world_empty_id ! 0) = []
   \<and> prepare_game_files example_env example_files_installer PNone example_world_empty_id
      = (Inr (), example_files_installer\<lparr>files := [2]\<rparr>,
         example_world_empty_id\<lparr>heap := heap example_world_empty_id @
             [\<lparr>file_game_slug = PStr ''foo'', file_id = ''patch'',
                url = ''/cache/patch.zip'', filename = ''patch.zip''\<rparr>],
           calls := [IsConnected]\<rparr>)
   \<and> prefix ''N/A'' (url (heap example_world_two_manual ! 1))
   \<and> file_id (heap example_world_two_manual ! 1) = ''extra''
   \<and> map (\<lambda>a. file_id (heap (snd (snd (prepare_game_files example_env example_files_installer PNone
                                          example_world_two_manual))) ! a))
        (files (fst (snd (prepare_game_files example_env example_files_installer PNone
                            example_world_two_manual))))
      = [''installer'', ''extra'']"
  by (simp add: prepare_game_files_def gather_game_files_def provider_files_def get_user_provided_file_def
      alloc_def set_url_def Let_def example_defs example_world_empty_id_def example_world_two_manual_def)

text \<open>
  The theorem of claim C9 on that run: the two declared files are as they were, while
  the copy of the second one has its URL substituted.
\<close>

theorem prepare_game_files_keeps_declared_files_witness:
  "script_files (fst (snd (prepare_game_files example_env example_files_installer PNone example_world))) = [0, 1]
   \<and> map (\<lambda>a. heap (snd (snd (prepare_game_files example_env example_files_installer PNone example_world))) ! a) [0, 1]
      = heap example_world
   \<and> url (heap (snd (snd (prepare_game_files example_env example_files_installer PNone example_world))) ! 2)
      = ''/cache/patch.zip''
   \<and> url (heap example_world ! 1) = ''$CACHE/patch.zip''"
proof -
  have v: "\<forall>a\<in>set (script_files example_files_installer). a < length (heap example_world)"
    by (simp add: example_defs)
  note r = example_run
  from prepare_game_files_keeps_declared_files [OF r v] show ?thesis
    unfolding r by (simp add: example_defs)
qed

text \<open>
  Claim C3, as amended. When at least one file is declared and the bound provider is
  online and not connected, \<open>prepare_game_files\<close> raises the authentication error, and
  leaves the installer (its working list \<open>files\<close> among the rest) and the heap as they
  were; the only call it has made is \<open>is_connected()\<close>, and no file list has been
  requested from the provider.
\<close>

theorem prepare_game_files_authentication:
  assumes "script_files self \<noteq> []" and "service self = Some svc" and "online svc" and "\<not> is_connected svc"
  shows "prepare_game_files env self patch_version w
           = (Inl (AuthenticationError (svc_id svc)), self, w\<lparr>calls := calls w @ [IsConnected]\<rparr>)"
  using assms by (simp add: prepare_game_files_def)

text \<open>The theorem on the example installer, with a provider that is not connected.\<close>

theorem prepare_game_files_authentication_witness:
  "fst (prepare_game_files example_env
        (example_files_installer\<lparr>service := Some (example_service\<lparr>is_connected := False\<rparr>)\<rparr>) PNone example_world)
      = Inl (AuthenticationError ''gog'')
   \<and> files (fst (snd (prepare_game_files example_env
        (example_files_installer\<lparr>service := Some (example_service\<lparr>is_connected := False\<rparr>)\<rparr>) PNone example_world)))
      = []
   \<and> calls (snd (snd (prepare_game_files example_env
        (example_files_installer\<lparr>service := Some (example_service\<lparr>is_connected := False\<rparr>)\<rparr>) PNone example_world)))
      = [IsConnected]"
  using prepare_game_files_authentication [of
      "example_files_installer\<lparr>service := Some (example_service\<lparr>is_connected := False\<rparr>)\<rparr>"
      "example_service\<lparr>is_connected := False\<rparr>" example_env PNone example_world]
  by (simp add: example_files_installer_def example_installer_def example_service_def example_world_def)

text \<open>
  Claim C3 as written fails for an installer that declares no file: the call returns
  at once, before the authentication test, and raises nothing.
\<close>

theorem prepare_game_files_no_files_counterexample:
  "service (example_installer\<lparr>service := Some (example_service\<lparr>is_connected := False\<rparr>)\<rparr>)
      = Some (example_service\<lparr>is_connected := False\<rparr>)
   \<and> online (example_service\<lparr>is_connected := False\<rparr>)
   \<and> \<not> is_connected (example_service\<lparr>is_connected := False\<rparr>)
   \<and> prepare_game_files example_env
        (example_installer\<lparr>service := Some (example_service\<lparr>is_connected := False\<rparr>)\<rparr>) PNone example_world
      = (Inr (), example_installer\<lparr>service := Some (example_service\<lparr>is_connected := False\<rparr>)\<rparr>, example_world)"
  by (simp add: prepare_game_files_def example_installer_def example_service_def)

section \<open>Persistence\<close>

text \<open>
  Claim C2. For an installer that extends another (\<open>extends\<close> is truthy), \<open>save\<close>
  returns the installer's \<open>game_id\<close> as it is, leaves the installer unchanged and adds
  one line to the log, nothing else: no configuration file is written and no row is
  upserted. When \<open>game_id\<close> is still the value the constructor computed with
  \<open>get_game_id\<close>, what is returned is the id of the store's existing row for the game
  slug (and \<open>None\<close> when the store has no such row).
\<close>

theorem save_extends:
  assumes "truthy (extends self)"
  shows "save env self w
           = (Inr (game_id self), self,
              w\<lparr>log := log w @ [''This is an extension to '' @ py_str (extends self)
                                 @ '', not creating a new game entry'']\<rparr>)
    \<and> config_writes (snd (snd (save env self w))) = config_writes w
    \<and> upserts (snd (snd (save env self w))) = upserts w
    \<and> (game_id self = get_game_id env self
         \<longrightarrow> fst (save env self w)
             = Inr (map_option row_id (get_game_by_field env (game_slug self) ''slug'')))"
  using assms by (simp add: save_def get_game_id_def split: option.splits)

text \<open>The theorem at an installer that extends \<open>foo-base\<close> and was constructed with the id 7 of the existing row.\<close>

theorem save_extends_witness:
  "truthy (extends (example_installer\<lparr>extends := PStr ''foo-base'', game_id := Some 7\<rparr>))
   \<and> save example_env (example_installer\<lparr>extends := PStr ''foo-base'', game_id := Some 7\<rparr>) example_world
      = (Inr (Some 7), example_installer\<lparr>extends := PStr ''foo-base'', game_id := Some 7\<rparr>,
         example_world\<lparr>log := [''This is an extension to foo-base, not creating a new game entry'']\<rparr>)
   \<and> get_game_id example_env (example_installer\<lparr>extends := PStr ''foo-base'', game_id := Some 7\<rparr>) = Some 7"
  using save_extends [of "example_installer\<lparr>extends := PStr ''foo-base'', game_id := Some 7\<rparr>"
      example_env example_world]
  by (simp add: py_str_def example_defs get_game_id_def example_row_def)

text \<open>
  For contrast, the example installer, which extends nothing: \<open>save\<close> writes one
  configuration file, upserts one row, and returns the id the store assigned.
\<close>

lemma save_example_new_record:
  "fst (save example_env example_installer example_world) = Inr (Some 8)
   \<and> length (config_writes (snd (snd (save example_env example_installer example_world)))) = 1
   \<and> map up_id (upserts (snd (snd (save example_env example_installer example_world)))) = [None]"
  by (simp add: save_def apply_gog_config_def get_game_config_def base_config_def update_system_def
      update_runner_def update_launcher_def update_game_def get_game_launcher_config_def
      stamp_metadata_def upsert_args_def bind_err_def Let_def example_defs)

end
